theory Spec2Isabelle
  imports Complex_Main "HOL-Library.Word"
begin

section \<open>The output thread of the Music Player Daemon\<close>

text \<open>
  A shallow embedding of the worker thread of one audio output (the methods
  \<^verbatim>\<open>AudioOutput::Task\<close>, \<^verbatim>\<open>Open\<close>, \<^verbatim>\<open>Close\<close>, \<^verbatim>\<open>Reopen\<close>, \<^verbatim>\<open>Play\<close>, \<^verbatim>\<open>Pause\<close> and
  the helpers \<^verbatim>\<open>ao_chunk_data\<close> and \<^verbatim>\<open>ao_filter_chunk\<close>).

  The object is a record; every method takes the record and returns the
  updated one.  The plugin, the filters, the mixer, the clock and the
  controller thread are outside this file: they are fields of a record
  \<open>world\<close> whose functions answer each call from the history of calls made
  so far.  An \<^verbatim>\<open>assert\<close> that fails, a division by zero and the dereference
  of a null pointer end the run with an error value; a loop gets fuel and
  ends with \<open>OutOfFuel\<close> when it is used up.  Log messages are left out.
\<close>

subsection \<open>Data\<close>

type_synonym byte = "8 word"

type_synonym SampleFormat = nat

text \<open>
  \<^verbatim>\<open>AudioFormat\<close> has the three fields the specification names; its
  predicates are declared outside this file and are fields of \<open>world\<close>.
\<close>

record AudioFormat =
  sample_rate :: nat
  format :: SampleFormat
  channels :: nat

type_synonym Tag = nat
type_synonym ReplayGainInfo = nat
type_synonym Filter = nat
type_synonym MusicPipe = nat

text \<open>
  A chunk with its \<^verbatim>\<open>next\<close> and \<^verbatim>\<open>other\<close> links (\<open>next'\<close> here, since \<open>next\<close> is
  a keyword).  The field \<open>data\<close> holds the \<^verbatim>\<open>length\<close> bytes of the chunk that are in
  use.
\<close>

datatype music_chunk = MusicChunk
  (data: "byte list")
  (tag: "Tag option")
  (other: "music_chunk option")
  (mix_ratio: real)
  (replay_gain_serial: "32 word")
  (replay_gain_info: ReplayGainInfo)
  (next': "music_chunk option")

datatype audio_output_command =
    AO_COMMAND_NONE
  | AO_COMMAND_ENABLE
  | AO_COMMAND_DISABLE
  | AO_COMMAND_OPEN
  | AO_COMMAND_REOPEN
  | AO_COMMAND_CLOSE
  | AO_COMMAND_PAUSE
  | AO_COMMAND_DRAIN
  | AO_COMMAND_CANCEL
  | AO_COMMAND_KILL

text \<open>
  Every call that leaves the object, in the order it is made.  A call of
  \<^verbatim>\<open>ao_plugin_play\<close> is recorded with the bytes it was given and the number
  it returned.
\<close>

datatype event =
    EvMutexUnlock
  | EvMutexLock
  | EvClientNotify
  | EvPlayerSignal
  | EvCondWait
  | EvCondTimedWait nat
  | EvCommandPosted audio_output_command
  | EvPluginEnable
  | EvPluginDisable
  | EvPluginOpen AudioFormat
  | EvPluginClose
  | EvPluginDrain
  | EvPluginCancel
  | EvPluginPause
  | EvPluginDelay
  | EvPluginPlay "byte list" nat
  | EvPluginSendTag Tag
  | EvFilterOpen Filter AudioFormat
  | EvFilterClose Filter
  | EvFilterPCM Filter "byte list"
  | EvReplayGainSetInfo Filter "ReplayGainInfo option"
  | EvConvertFilterSet Filter AudioFormat
  | EvPcmMix "byte list" "byte list" SampleFormat real

text \<open>
  The two cells \<^verbatim>\<open>ao_chunk_data\<close> may be handed through its pointer
  \<^verbatim>\<open>replay_gain_serial_p\<close>.
\<close>

datatype serial_cell = REPLAY_GAIN_SERIAL | OTHER_REPLAY_GAIN_SERIAL

text \<open>
  The fields of \<^verbatim>\<open>AudioOutput\<close> the thread reads and writes.  \<open>fail_timer\<close> is
  \<open>None\<close> after \<^verbatim>\<open>Reset\<close> and holds the time of the last \<^verbatim>\<open>Update\<close> otherwise.
  \<open>events\<close> is not part of the object: it records the calls made so far.
\<close>

record AudioOutput =
  tags :: bool
  really_enabled :: bool
  "open" :: bool
  pause :: bool
  allow_play :: bool
  in_playback_loop :: bool
  woken_for_play :: bool
  current_chunk :: "music_chunk option"
  current_chunk_finished :: bool
  pipe :: "MusicPipe option"
  in_audio_format :: AudioFormat
  out_audio_format :: AudioFormat
  config_audio_format :: AudioFormat
  filter' :: Filter
  convert_filter :: Filter
  replay_gain_filter :: "Filter option"
  other_replay_gain_filter :: "Filter option"
  replay_gain_serial_ao :: "32 word"
  other_replay_gain_serial :: "32 word"
  cross_fade_buffer :: "byte list"
  fail_timer :: "nat option"
  command :: audio_output_command
  events :: "event list"

text \<open>
  What the controller thread may do to the object while the worker has
  released the mutex.
\<close>

datatype ctl_act =
    CtlCommand audio_output_command
  | CtlSetPipe MusicPipe AudioFormat
  | CtlAllowPlay bool
  | CtlWakeForPlay

text \<open>
  Everything outside the thread.  Each function that stands for a call gets
  the events so far, so that two calls of the same function may answer
  differently.
\<close>

record world =
  IsValid :: "AudioFormat \<Rightarrow> bool"
  IsDefined :: "AudioFormat \<Rightarrow> bool"
  IsFullyDefined :: "AudioFormat \<Rightarrow> bool"
  ApplyMask :: "AudioFormat \<Rightarrow> AudioFormat \<Rightarrow> AudioFormat"
  Undefined :: AudioFormat
  GetFrameSize :: "AudioFormat \<Rightarrow> nat"
  IsEmpty :: "music_chunk \<Rightarrow> bool"
  CheckFormat :: "music_chunk \<Rightarrow> AudioFormat \<Rightarrow> bool"
  Peek :: "event list \<Rightarrow> MusicPipe \<Rightarrow> music_chunk option"
  MonotonicClock :: "event list \<Rightarrow> nat"
  ao_plugin_enable :: "event list \<Rightarrow> bool"
  ao_plugin_open :: "event list \<Rightarrow> AudioFormat \<Rightarrow> bool \<times> AudioFormat"
  ao_plugin_play :: "event list \<Rightarrow> byte list \<Rightarrow> nat"
  ao_plugin_pause :: "event list \<Rightarrow> bool"
  ao_plugin_delay :: "event list \<Rightarrow> nat"
  Filter_Open :: "event list \<Rightarrow> Filter \<Rightarrow> AudioFormat \<Rightarrow> AudioFormat"
  Filter_FilterPCM :: "event list \<Rightarrow> Filter \<Rightarrow> byte list \<Rightarrow> byte list option"
  convert_filter_set :: "event list \<Rightarrow> Filter \<Rightarrow> AudioFormat \<Rightarrow> bool"
  pcm_mix :: "event list \<Rightarrow> byte list \<Rightarrow> byte list \<Rightarrow> SampleFormat \<Rightarrow> real \<Rightarrow> byte list option"
  controller :: "event list \<Rightarrow> ctl_act list"

datatype error = AssertionFailed | DivisionByZero | NullPointer | OutOfFuel

type_synonym 'a result = "error + 'a"

definition rbind :: "'a result \<Rightarrow> ('a \<Rightarrow> 'b result) \<Rightarrow> 'b result" where
  "rbind m f = (case m of Inl e \<Rightarrow> Inl e | Inr x \<Rightarrow> f x)"


subsection \<open>The mutex, the condition variable and the controller\<close>

definition emit :: "event \<Rightarrow> AudioOutput \<Rightarrow> AudioOutput" where
  "emit e s = s\<lparr>events := events s @ [e]\<rparr>"

text \<open>
  Modelled from the spec: the controller thread (its code is not in this
  file).  It writes the command slot only when the slot is \<^verbatim>\<open>NONE\<close>, sets the
  pipe and a valid input format before it posts \<^verbatim>\<open>OPEN\<close>, and sets
  \<open>allow_play\<close> and \<open>woken_for_play\<close>.  It writes no other field.
\<close>

fun ctl_apply :: "world \<Rightarrow> ctl_act \<Rightarrow> AudioOutput \<Rightarrow> AudioOutput" where
  "ctl_apply w (CtlCommand c) s =
     (if command s = AO_COMMAND_NONE \<and> c \<noteq> AO_COMMAND_NONE
      then emit (EvCommandPosted c) (s\<lparr>command := c\<rparr>) else s)"
| "ctl_apply w (CtlSetPipe mp af) s =
     (if command s = AO_COMMAND_NONE \<and> IsValid w af
      then s\<lparr>pipe := Some mp, in_audio_format := af\<rparr> else s)"
| "ctl_apply w (CtlAllowPlay b) s = s\<lparr>allow_play := b\<rparr>"
| "ctl_apply w CtlWakeForPlay s = s\<lparr>woken_for_play := True\<rparr>"

fun ctl_run :: "world \<Rightarrow> ctl_act list \<Rightarrow> AudioOutput \<Rightarrow> AudioOutput" where
  "ctl_run w [] s = s"
| "ctl_run w (a # as) s = ctl_run w as (ctl_apply w a s)"

text \<open>
  While the worker does not hold the mutex the controller may act; the
  worker sees what it did when it has the mutex again.
\<close>

definition ctl_window :: "world \<Rightarrow> AudioOutput \<Rightarrow> AudioOutput" where
  "ctl_window w s = ctl_run w (controller w (events s)) s"

definition mutex_unlock :: "AudioOutput \<Rightarrow> AudioOutput" where
  "mutex_unlock s = emit EvMutexUnlock s"

definition mutex_lock :: "world \<Rightarrow> AudioOutput \<Rightarrow> AudioOutput" where
  "mutex_lock w s = emit EvMutexLock (ctl_window w s)"

definition cond_wait :: "world \<Rightarrow> AudioOutput \<Rightarrow> AudioOutput" where
  "cond_wait w s = ctl_window w (emit EvCondWait s)"

definition cond_timed_wait :: "world \<Rightarrow> nat \<Rightarrow> AudioOutput \<Rightarrow> AudioOutput" where
  "cond_timed_wait w timeout_ms s = ctl_window w (emit (EvCondTimedWait timeout_ms) s)"

text \<open>
  The pattern \<^verbatim>\<open>mutex.unlock(); call; mutex.lock();\<close> around one call to the
  outside.
\<close>

definition unlocked_call :: "world \<Rightarrow> event \<Rightarrow> AudioOutput \<Rightarrow> AudioOutput" where
  "unlocked_call w e s = mutex_lock w (emit e (mutex_unlock s))"

text \<open>Modelled from the spec: the fail timer (its class is not in this file).\<close>

definition fail_timer_Reset :: "AudioOutput \<Rightarrow> AudioOutput" where
  "fail_timer_Reset s = s\<lparr>fail_timer := None\<rparr>"

definition fail_timer_Update :: "world \<Rightarrow> AudioOutput \<Rightarrow> AudioOutput" where
  "fail_timer_Update w s = s\<lparr>fail_timer := Some (MonotonicClock w (events s))\<rparr>"

definition fail_timer_IsDefined :: "AudioOutput \<Rightarrow> bool" where
  "fail_timer_IsDefined s = (fail_timer s \<noteq> None)"

subsection \<open>Commands, enabling and the filters\<close>

definition CommandFinished :: "world \<Rightarrow> AudioOutput \<Rightarrow> AudioOutput result" where
  "CommandFinished w s =
     (if command s = AO_COMMAND_NONE then Inl AssertionFailed
      else Inr (unlocked_call w EvClientNotify (s\<lparr>command := AO_COMMAND_NONE\<rparr>)))"

definition Enable :: "world \<Rightarrow> AudioOutput \<Rightarrow> bool \<times> AudioOutput" where
  "Enable w s =
     (if really_enabled s then (True, s)
      else
        let success = ao_plugin_enable w (events (mutex_unlock s));
            s2 = unlocked_call w EvPluginEnable s
        in if \<not> success then (False, s2)
           else (True, s2\<lparr>really_enabled := True\<rparr>))"

text \<open>One filter's \<^verbatim>\<open>Open\<close> and \<^verbatim>\<open>Close\<close>.\<close>

definition filter_open ::
  "world \<Rightarrow> Filter \<Rightarrow> AudioFormat \<Rightarrow> AudioOutput \<Rightarrow> AudioFormat \<times> AudioOutput" where
  "filter_open w f af s = (Filter_Open w (events s) f af, emit (EvFilterOpen f af) s)"

definition filter_close :: "Filter \<Rightarrow> AudioOutput \<Rightarrow> AudioOutput" where
  "filter_close f s = emit (EvFilterClose f) s"

definition filter_close_opt :: "Filter option \<Rightarrow> AudioOutput \<Rightarrow> AudioOutput" where
  "filter_close_opt fo s = (case fo of None \<Rightarrow> s | Some f \<Rightarrow> filter_close f s)"

definition OpenFilter ::
  "world \<Rightarrow> AudioFormat \<Rightarrow> AudioOutput \<Rightarrow> (AudioFormat \<times> AudioOutput) result" where
  "OpenFilter w af s =
     (if \<not> IsValid w af then Inl AssertionFailed
      else
        let (ok1, s1) =
              (case replay_gain_filter s of
                 None \<Rightarrow> (True, s)
               | Some f \<Rightarrow> let (r, s') = filter_open w f af s in (IsDefined w r, s'))
        in if \<not> ok1 then Inr (Undefined w, s1)
           else
             let (ok2, s2) =
                   (case other_replay_gain_filter s1 of
                      None \<Rightarrow> (True, s1)
                    | Some f \<Rightarrow> let (r, s') = filter_open w f af s1 in (IsDefined w r, s'))
             in if \<not> ok2
                then Inr (Undefined w, filter_close_opt (replay_gain_filter s2) s2)
                else
                  let (r, s3) = filter_open w (filter' s2) af s2
                  in if \<not> IsDefined w r
                     then Inr (r, filter_close_opt (other_replay_gain_filter s3)
                                    (filter_close_opt (replay_gain_filter s3) s3))
                     else Inr (r, s3))"

definition CloseFilter :: "AudioOutput \<Rightarrow> AudioOutput" where
  "CloseFilter s =
     (let s1 = filter_close_opt (replay_gain_filter s) s;
          s2 = filter_close_opt (other_replay_gain_filter s1) s1
      in filter_close (filter' s2) s2)"

subsection \<open>Opening and closing the device\<close>

definition Close :: "world \<Rightarrow> bool \<Rightarrow> AudioOutput \<Rightarrow> AudioOutput result" where
  "Close w drain s =
     (if \<not> open s then Inl AssertionFailed
      else
        let s1 = s\<lparr>pipe := None, current_chunk := None, open := False\<rparr>;
            s2 = mutex_unlock s1;
            s3 = (if drain then emit EvPluginDrain s2 else emit EvPluginCancel s2);
            s4 = emit EvPluginClose s3;
            s5 = CloseFilter s4
        in Inr (mutex_lock w s5))"

definition Disable :: "world \<Rightarrow> AudioOutput \<Rightarrow> AudioOutput result" where
  "Disable w s =
     rbind (if open s then Close w False s else Inr s) (\<lambda>s1.
       if really_enabled s1
       then Inr (unlocked_call w EvPluginDisable (s1\<lparr>really_enabled := False\<rparr>))
       else Inr s1)"

text \<open>
  The call of \<^verbatim>\<open>ao_plugin_open\<close> with the mutex released; the plugin may change
  \<open>out_audio_format\<close>, which it gets by reference.
\<close>

definition call_plugin_open :: "world \<Rightarrow> AudioOutput \<Rightarrow> bool \<times> AudioOutput" where
  "call_plugin_open w s =
     (let s5 = mutex_unlock s;
          (success, af) = ao_plugin_open w (events s5) (out_audio_format s5)
      in (success,
          mutex_lock w ((emit (EvPluginOpen (out_audio_format s5)) s5)
                          \<lparr>out_audio_format := af\<rparr>)))"

text \<open>The call \<^verbatim>\<open>convert_filter_set(convert_filter, out_audio_format, error)\<close>.\<close>

definition call_convert_filter_set :: "world \<Rightarrow> AudioOutput \<Rightarrow> bool \<times> AudioOutput" where
  "call_convert_filter_set w s =
     (convert_filter_set w (events s) (convert_filter s) (out_audio_format s),
      emit (EvConvertFilterSet (convert_filter s) (out_audio_format s)) s)"

definition Open :: "world \<Rightarrow> AudioOutput \<Rightarrow> AudioOutput result" where
  "Open w s =
     (if open s \<or> pipe s = None \<or> current_chunk s \<noteq> None
         \<or> \<not> IsValid w (in_audio_format s)
      then Inl AssertionFailed
      else
        let (enabled, s2) = Enable w (fail_timer_Reset s)
        in if \<not> enabled then Inr s2
           else
             rbind (OpenFilter w (in_audio_format s2) s2) (\<lambda>(filter_audio_format, s3).
               if \<not> IsDefined w filter_audio_format then Inr (fail_timer_Update w s3)
               else if \<not> IsValid w filter_audio_format then Inl AssertionFailed
               else
                 let (success, s6) =
                       call_plugin_open w
                         (s3\<lparr>out_audio_format :=
                               ApplyMask w filter_audio_format (config_audio_format s3)\<rparr>)
                 in if open s6 then Inl AssertionFailed
                    else if \<not> success then Inr (fail_timer_Update w (CloseFilter s6))
                    else
                      let (ok, s7) = call_convert_filter_set w s6
                      in if \<not> ok then Inr (fail_timer_Update w (CloseFilter s7))
                         else Inr (s7\<lparr>open := True\<rparr>)))"

definition ReopenFilter :: "world \<Rightarrow> AudioOutput \<Rightarrow> AudioOutput result" where
  "ReopenFilter w s =
     rbind (OpenFilter w (in_audio_format (CloseFilter s)) (CloseFilter s))
       (\<lambda>(filter_audio_format, s2).
         let (failed, s3) =
               (if \<not> IsDefined w filter_audio_format then (True, s2)
                else (let (ok, s') = call_convert_filter_set w s2 in (\<not> ok, s')))
         in if failed
            then
              Inr (unlocked_call w EvPluginClose
                     (fail_timer_Update w
                        (s3\<lparr>pipe := None, current_chunk := None, open := False\<rparr>)))
            else Inr s3)"

definition Reopen :: "world \<Rightarrow> AudioOutput \<Rightarrow> AudioOutput result" where
  "Reopen w s =
     rbind
       (if \<not> IsFullyDefined w (config_audio_format s)
        then
          rbind (if open s
                 then (let mp = pipe s
                       in rbind (Close w True s) (\<lambda>s1. Inr (s1\<lparr>pipe := mp\<rparr>)))
                 else Inr s)
            (\<lambda>s2. Inr (s2\<lparr>out_audio_format :=
                           ApplyMask w (in_audio_format s2) (config_audio_format s2)\<rparr>))
        else Inr s)
       (\<lambda>s3. if open s3 then ReopenFilter w s3 else Open w s3)"

subsection \<open>Playing\<close>

fun WaitForDelay :: "world \<Rightarrow> nat \<Rightarrow> AudioOutput \<Rightarrow> (bool \<times> AudioOutput) result" where
  "WaitForDelay w 0 s = Inl OutOfFuel"
| "WaitForDelay w (Suc n) s =
     (let delay = ao_plugin_delay w (events s);
          s1 = emit EvPluginDelay s
      in if delay = 0 then Inr (True, s1)
         else
           let s2 = cond_timed_wait w delay s1
           in if command s2 \<noteq> AO_COMMAND_NONE then Inr (False, s2)
              else WaitForDelay w n s2)"

definition read_cell :: "serial_cell \<Rightarrow> AudioOutput \<Rightarrow> 32 word" where
  "read_cell c s =
     (case c of REPLAY_GAIN_SERIAL \<Rightarrow> replay_gain_serial_ao s
              | OTHER_REPLAY_GAIN_SERIAL \<Rightarrow> other_replay_gain_serial s)"

definition write_cell :: "serial_cell \<Rightarrow> 32 word \<Rightarrow> AudioOutput \<Rightarrow> AudioOutput" where
  "write_cell c v s =
     (case c of REPLAY_GAIN_SERIAL \<Rightarrow> s\<lparr>replay_gain_serial_ao := v\<rparr>
              | OTHER_REPLAY_GAIN_SERIAL \<Rightarrow> s\<lparr>other_replay_gain_serial := v\<rparr>)"

text \<open>
  The result of \<^verbatim>\<open>ao_chunk_data\<close> and of \<^verbatim>\<open>ao_filter_chunk\<close> is the pointer
  with the length: \<open>None\<close> is the null pointer, \<open>Some bs\<close> the bytes it
  points to.
\<close>

definition ao_chunk_data ::
  "world \<Rightarrow> music_chunk \<Rightarrow> Filter option \<Rightarrow> serial_cell \<Rightarrow> AudioOutput
     \<Rightarrow> (byte list option \<times> AudioOutput) result" where
  "ao_chunk_data w chunk rgf cell s =
     (if IsEmpty w chunk \<or> \<not> CheckFormat w chunk (in_audio_format s)
      then Inl AssertionFailed
      else if GetFrameSize w (in_audio_format s) = 0 then Inl DivisionByZero
      else if length (data chunk) mod GetFrameSize w (in_audio_format s) \<noteq> 0
      then Inl AssertionFailed
      else
        (case rgf of
           None \<Rightarrow> Inr (Some (data chunk), s)
         | Some f \<Rightarrow>
             if \<not> length (data chunk) > 0 then Inr (Some (data chunk), s)
             else
               let s1 = (if replay_gain_serial chunk \<noteq> read_cell cell s
                         then write_cell cell (replay_gain_serial chunk)
                                (emit (EvReplayGainSetInfo f
                                         (if replay_gain_serial chunk \<noteq> 0
                                          then Some (replay_gain_info chunk)
                                          else None)) s)
                         else s)
               in Inr (Filter_FilterPCM w (events s1) f (data chunk),
                       emit (EvFilterPCM f (data chunk)) s1)))"

text \<open>
  \<^verbatim>\<open>pcm_mix\<close> works in place on the first \<open>n\<close> bytes of the destination:
  \<open>mixed\<close> is what it leaves there.
\<close>

definition mix_into :: "byte list \<Rightarrow> nat \<Rightarrow> byte list \<Rightarrow> byte list" where
  "mix_into dest n mixed = take n mixed @ drop (length (take n mixed)) dest"

text \<open>The call \<^verbatim>\<open>ao->filter->FilterPCM\<close> that ends \<^verbatim>\<open>ao_filter_chunk\<close>.\<close>

definition apply_filter_chain ::
  "world \<Rightarrow> byte list \<Rightarrow> AudioOutput \<Rightarrow> (byte list option \<times> AudioOutput) result" where
  "apply_filter_chain w input s =
     Inr (Filter_FilterPCM w (events s) (filter' s) input,
          emit (EvFilterPCM (filter' s) input) s)"

definition ao_filter_chunk ::
  "world \<Rightarrow> music_chunk \<Rightarrow> AudioOutput \<Rightarrow> (byte list option \<times> AudioOutput) result" where
  "ao_filter_chunk w chunk s =
     rbind (ao_chunk_data w chunk (replay_gain_filter s) REPLAY_GAIN_SERIAL s) (\<lambda>(d, s1).
       case d of
         None \<Rightarrow> Inr (None, s1)
       | Some bytes \<Rightarrow>
           if length bytes = 0 then Inr (Some (take 0 bytes), s1)
           else
             (case other chunk of
                None \<Rightarrow> apply_filter_chain w bytes s1
              | Some other_chunk \<Rightarrow>
                  rbind (ao_chunk_data w other_chunk (other_replay_gain_filter s1)
                           OTHER_REPLAY_GAIN_SERIAL s1) (\<lambda>(od, s2).
                    case od of
                      None \<Rightarrow> Inr (None, s2)
                    | Some other_data \<Rightarrow>
                        if length other_data = 0 then Inr (Some (take 0 bytes), s2)
                        else
                          let n = (if length bytes > length other_data
                                   then length other_data else length bytes);
                              dest = other_data;
                              s3 = s2\<lparr>cross_fade_buffer := dest\<rparr>;
                              portion = 1 - mix_ratio chunk;
                              fmt = format (in_audio_format s3);
                              mixed = pcm_mix w (events s3) (take n dest) (take n bytes)
                                        fmt portion;
                              s4 = emit (EvPcmMix (take n dest) (take n bytes) fmt portion) s3
                          in case mixed of
                               None \<Rightarrow> Inr (None, s4)
                             | Some m \<Rightarrow>
                                 apply_filter_chain w (mix_into dest n m)
                                   (s4\<lparr>cross_fade_buffer := mix_into dest n m\<rparr>))))"

text \<open>The loop of \<^verbatim>\<open>PlayChunk\<close> over the bytes that are left.\<close>

fun PlayChunk_loop ::
  "world \<Rightarrow> nat \<Rightarrow> byte list \<Rightarrow> AudioOutput \<Rightarrow> (bool \<times> AudioOutput) result" where
  "PlayChunk_loop w 0 bytes s = Inl OutOfFuel"
| "PlayChunk_loop w (Suc n) bytes s =
     (if \<not> (length bytes > 0 \<and> command s = AO_COMMAND_NONE) then Inr (True, s)
      else
        rbind (WaitForDelay w n s) (\<lambda>(ready, s1).
          if \<not> ready then Inr (True, s1)
          else
            let nbytes = ao_plugin_play w (events (mutex_unlock s1)) bytes;
                s3 = unlocked_call w (EvPluginPlay bytes nbytes) s1
            in if nbytes = 0
               then
                 rbind (Close w False s3) (\<lambda>s4.
                   if fail_timer_IsDefined s4 then Inl AssertionFailed
                   else Inr (False, fail_timer_Update w s4))
               else if \<not> nbytes \<le> length bytes then Inl AssertionFailed
               else if GetFrameSize w (out_audio_format s3) = 0 then Inl DivisionByZero
               else if nbytes mod GetFrameSize w (out_audio_format s3) \<noteq> 0
               then Inl AssertionFailed
               else PlayChunk_loop w n (drop nbytes bytes) s3))"

definition PlayChunk ::
  "world \<Rightarrow> nat \<Rightarrow> music_chunk \<Rightarrow> AudioOutput \<Rightarrow> (bool \<times> AudioOutput) result" where
  "PlayChunk w n chunk s =
     (let s1 = (case tag chunk of
                  Some t \<Rightarrow>
                    if tags s then unlocked_call w (EvPluginSendTag t) s else s
                | None \<Rightarrow> s)
      in rbind (ao_filter_chunk w chunk s1) (\<lambda>(d, s2).
           case d of
             None \<Rightarrow> rbind (Close w False s2) (\<lambda>s3. Inr (False, fail_timer_Update w s3))
           | Some bytes \<Rightarrow> PlayChunk_loop w n bytes s2))"

definition GetNextChunk :: "world \<Rightarrow> AudioOutput \<Rightarrow> music_chunk option result" where
  "GetNextChunk w s =
     (case current_chunk s of
        Some c \<Rightarrow> Inr (next' c)
      | None \<Rightarrow> (case pipe s of
                   None \<Rightarrow> Inl NullPointer
                 | Some mp \<Rightarrow> Inr (Peek w (events s) mp)))"

text \<open>The loop of \<^verbatim>\<open>Play\<close> over the chunks.\<close>

fun Play_loop ::
  "world \<Rightarrow> nat \<Rightarrow> music_chunk option \<Rightarrow> AudioOutput \<Rightarrow> AudioOutput result" where
  "Play_loop w 0 chunk s = Inl OutOfFuel"
| "Play_loop w (Suc n) chunk s =
     (case chunk of
        None \<Rightarrow> Inr s
      | Some c \<Rightarrow>
          if command s \<noteq> AO_COMMAND_NONE then Inr s
          else if current_chunk_finished s then Inl AssertionFailed
          else
            rbind (PlayChunk w n c (s\<lparr>current_chunk := Some c\<rparr>)) (\<lambda>(ok, s2).
              if \<not> ok
              then (if current_chunk s2 \<noteq> None then Inl AssertionFailed else Inr s2)
              else if current_chunk s2 \<noteq> Some c then Inl AssertionFailed
              else Play_loop w n (next' c) s2))"

definition Play :: "world \<Rightarrow> nat \<Rightarrow> AudioOutput \<Rightarrow> (bool \<times> AudioOutput) result" where
  "Play w n s =
     (if pipe s = None then Inl AssertionFailed
      else
        rbind (GetNextChunk w s) (\<lambda>chunk.
          case chunk of
            None \<Rightarrow> Inr (False, s)
          | Some c \<Rightarrow>
              let s1 = s\<lparr>current_chunk_finished := False\<rparr>
              in if in_playback_loop s1 then Inl AssertionFailed
                 else
                   rbind (Play_loop w n chunk (s1\<lparr>in_playback_loop := True\<rparr>)) (\<lambda>s3.
                     if \<not> in_playback_loop s3 then Inl AssertionFailed
                     else
                       let s4 = s3\<lparr>in_playback_loop := False,
                                   current_chunk_finished := True\<rparr>
                       in Inr (True, unlocked_call w EvPlayerSignal s4))))"

subsection \<open>Pausing\<close>

text \<open>The \<^verbatim>\<open>do ... while\<close> loop of \<^verbatim>\<open>Pause\<close>.\<close>

fun Pause_loop :: "world \<Rightarrow> nat \<Rightarrow> AudioOutput \<Rightarrow> AudioOutput result" where
  "Pause_loop w 0 s = Inl OutOfFuel"
| "Pause_loop w (Suc n) s =
     rbind (WaitForDelay w n s) (\<lambda>(ready, s1).
       if \<not> ready then Inr s1
       else
         let success = ao_plugin_pause w (events (mutex_unlock s1));
             s3 = unlocked_call w EvPluginPause s1
         in if \<not> success then Close w False s3
            else if command s3 = AO_COMMAND_NONE then Pause_loop w n s3
            else Inr s3)"

definition Pause :: "world \<Rightarrow> nat \<Rightarrow> AudioOutput \<Rightarrow> AudioOutput result" where
  "Pause w n s =
     (let s1 = unlocked_call w EvPluginCancel s
      in rbind (CommandFinished w (s1\<lparr>pause := True\<rparr>)) (\<lambda>s2.
           rbind (Pause_loop w n s2) (\<lambda>s3. Inr (s3\<lparr>pause := False\<rparr>))))"

subsection \<open>The thread\<close>

text \<open>How a case of the \<^verbatim>\<open>switch\<close> in \<^verbatim>\<open>Task\<close> ends.\<close>

datatype switch_exit = Break | Continue | ReturnFromTask

definition Task_switch ::
  "world \<Rightarrow> nat \<Rightarrow> AudioOutput \<Rightarrow> (switch_exit \<times> AudioOutput) result" where
  "Task_switch w n s =
     (case command s of
        AO_COMMAND_NONE \<Rightarrow> Inr (Break, s)
      | AO_COMMAND_ENABLE \<Rightarrow>
          rbind (CommandFinished w (snd (Enable w s))) (\<lambda>s1. Inr (Break, s1))
      | AO_COMMAND_DISABLE \<Rightarrow>
          rbind (Disable w s) (\<lambda>s1.
            rbind (CommandFinished w s1) (\<lambda>s2. Inr (Break, s2)))
      | AO_COMMAND_OPEN \<Rightarrow>
          rbind (Open w s) (\<lambda>s1.
            rbind (CommandFinished w s1) (\<lambda>s2. Inr (Break, s2)))
      | AO_COMMAND_REOPEN \<Rightarrow>
          rbind (Reopen w s) (\<lambda>s1.
            rbind (CommandFinished w s1) (\<lambda>s2. Inr (Break, s2)))
      | AO_COMMAND_CLOSE \<Rightarrow>
          if \<not> open s \<or> pipe s = None then Inl AssertionFailed
          else
            rbind (Close w False s) (\<lambda>s1.
              rbind (CommandFinished w s1) (\<lambda>s2. Inr (Break, s2)))
      | AO_COMMAND_PAUSE \<Rightarrow>
          if \<not> open s
          then rbind (CommandFinished w s) (\<lambda>s1. Inr (Break, s1))
          else rbind (Pause w n s) (\<lambda>s1. Inr (Continue, s1))
      | AO_COMMAND_DRAIN \<Rightarrow>
          rbind
            (if open s
             then
               (if current_chunk s \<noteq> None then Inl AssertionFailed
                else
                  (case pipe s of
                     None \<Rightarrow> Inl NullPointer
                   | Some mp \<Rightarrow>
                       if Peek w (events s) mp \<noteq> None then Inl AssertionFailed
                       else Inr (unlocked_call w EvPluginDrain s)))
             else Inr s)
            (\<lambda>s1. rbind (CommandFinished w s1) (\<lambda>s2. Inr (Continue, s2)))
      | AO_COMMAND_CANCEL \<Rightarrow>
          (let s1 = s\<lparr>current_chunk := None\<rparr>;
               s2 = (if open s1 then unlocked_call w EvPluginCancel s1 else s1)
           in rbind (CommandFinished w s2) (\<lambda>s3. Inr (Continue, s3)))
      | AO_COMMAND_KILL \<Rightarrow>
          rbind (CommandFinished w (s\<lparr>current_chunk := None\<rparr>)) (\<lambda>s1.
            Inr (ReturnFromTask, mutex_unlock s1)))"

text \<open>
  What follows the \<^verbatim>\<open>switch\<close> after a \<^verbatim>\<open>break\<close>: a step of playing, or the
  wait for the next command.
\<close>

definition Task_wait :: "world \<Rightarrow> AudioOutput \<Rightarrow> AudioOutput" where
  "Task_wait w s =
     (if command s = AO_COMMAND_NONE
      then cond_wait w (s\<lparr>woken_for_play := False\<rparr>)
      else s)"

definition Task_idle :: "world \<Rightarrow> nat \<Rightarrow> AudioOutput \<Rightarrow> AudioOutput result" where
  "Task_idle w n s =
     (if open s \<and> allow_play s
      then rbind (Play w n s) (\<lambda>(played, s1).
             if played then Inr s1 else Inr (Task_wait w s1))
      else Inr (Task_wait w s))"

text \<open>
  One round of the \<^verbatim>\<open>while (1)\<close> loop of \<^verbatim>\<open>Task\<close>.  The result says whether
  the thread has returned.
\<close>

definition Task_body :: "world \<Rightarrow> nat \<Rightarrow> AudioOutput \<Rightarrow> (bool \<times> AudioOutput) result" where
  "Task_body w n s =
     rbind (Task_switch w n s) (\<lambda>(exit, s1).
       case exit of
         Break \<Rightarrow> rbind (Task_idle w n s1) (\<lambda>s2. Inr (False, s2))
       | Continue \<Rightarrow> Inr (False, s1)
       | ReturnFromTask \<Rightarrow> Inr (True, s1))"

fun Task_loop :: "world \<Rightarrow> nat \<Rightarrow> AudioOutput \<Rightarrow> AudioOutput result" where
  "Task_loop w 0 s = Inl OutOfFuel"
| "Task_loop w (Suc n) s =
     rbind (Task_body w n s) (\<lambda>(returned, s1).
       if returned then Inr s1 else Task_loop w n s1)"

definition Task :: "world \<Rightarrow> nat \<Rightarrow> AudioOutput \<Rightarrow> AudioOutput result" where
  "Task w n s = Task_loop w n (mutex_lock w s)"

text \<open>
  Modelled from the spec: the object before the thread starts (its
  constructor is not in this file) is closed and disabled, with no command,
  no chunk and the fail timer reset.
\<close>

definition initial :: "AudioOutput \<Rightarrow> bool" where
  "initial s \<longleftrightarrow>
     \<not> open s \<and> \<not> really_enabled s \<and> \<not> pause s \<and> \<not> in_playback_loop s
     \<and> current_chunk s = None \<and> fail_timer s = None
     \<and> command s = AO_COMMAND_NONE \<and> events s = []"

text \<open>
  The states of the object at the head of the loop of \<^verbatim>\<open>Task\<close>, for
  any answers of the world and any amount of fuel.
\<close>

inductive reachable :: "world \<Rightarrow> AudioOutput \<Rightarrow> bool" for w :: world where
  start: "initial s \<Longrightarrow> reachable w (mutex_lock w s)"
| round: "reachable w s \<Longrightarrow> Task_body w n s = Inr (False, s') \<Longrightarrow> reachable w s'"

subsection \<open>A world and objects to run the thread on\<close>

definition af_cd :: AudioFormat where
  "af_cd = \<lparr>sample_rate = 44100, format = 2, channels = 2\<rparr>"

definition af_undefined :: AudioFormat where
  "af_undefined = \<lparr>sample_rate = 0, format = 0, channels = 0\<rparr>"

text \<open>
  A world in which every call succeeds: the device takes all bytes at once
  and never asks to wait, the filters hand their input through, and the
  controller does nothing.
\<close>

definition world_ok :: world where
  "world_ok =
     \<lparr>IsValid = (\<lambda>af. sample_rate af \<noteq> 0 \<and> format af \<noteq> 0 \<and> channels af \<noteq> 0),
      IsDefined = (\<lambda>af. sample_rate af \<noteq> 0),
      IsFullyDefined = (\<lambda>af. sample_rate af \<noteq> 0 \<and> format af \<noteq> 0 \<and> channels af \<noteq> 0),
      ApplyMask = (\<lambda>af m.
        \<lparr>sample_rate = (if sample_rate m \<noteq> 0 then sample_rate m else sample_rate af),
         format = (if format m \<noteq> 0 then format m else format af),
         channels = (if channels m \<noteq> 0 then channels m else channels af)\<rparr>),
      Undefined = af_undefined,
      GetFrameSize = (\<lambda>af. 4),
      IsEmpty = (\<lambda>c. data c = [] \<and> tag c = None),
      CheckFormat = (\<lambda>c af. True),
      Peek = (\<lambda>evs mp. None),
      MonotonicClock = (\<lambda>evs. Suc (length evs)),
      ao_plugin_enable = (\<lambda>evs. True),
      ao_plugin_open = (\<lambda>evs af. (True, af)),
      ao_plugin_play = (\<lambda>evs bytes. length bytes),
      ao_plugin_pause = (\<lambda>evs. True),
      ao_plugin_delay = (\<lambda>evs. 0),
      Filter_Open = (\<lambda>evs f af. af),
      Filter_FilterPCM = (\<lambda>evs f bytes. Some bytes),
      convert_filter_set = (\<lambda>evs f af. True),
      pcm_mix = (\<lambda>evs dest src fmt portion. Some dest),
      controller = (\<lambda>evs. [])\<rparr>"

text \<open>An object that is closed and disabled, with a pipe and a format set.\<close>

definition ao_idle :: AudioOutput where
  "ao_idle =
     \<lparr>tags = True, really_enabled = False, open = False, pause = False,
      allow_play = True, in_playback_loop = False, woken_for_play = False,
      current_chunk = None, current_chunk_finished = True, pipe = Some 1,
      in_audio_format = af_cd, out_audio_format = af_undefined,
      config_audio_format = af_undefined, filter' = 1, convert_filter = 2,
      replay_gain_filter = Some 3, other_replay_gain_filter = Some 4,
      replay_gain_serial_ao = 0, other_replay_gain_serial = 0,
      cross_fade_buffer = [], fail_timer = None,
      command = AO_COMMAND_NONE, events = []\<rparr>"

text \<open>The same object, enabled and open.\<close>

definition ao_playing :: AudioOutput where
  "ao_playing = ao_idle\<lparr>really_enabled := True, open := True, out_audio_format := af_cd\<rparr>"

text \<open>
  A chunk of 100 bytes that fades into a chunk of 60 bytes, and a chunk
  that carries a tag and no bytes.
\<close>

definition chunk_60 :: music_chunk where
  "chunk_60 = MusicChunk (replicate 60 1) None None 0 7 0 None"

definition chunk_100 :: music_chunk where
  "chunk_100 = MusicChunk (replicate 100 2) None (Some chunk_60) (1 / 4) 7 0 None"

definition chunk_tag_only :: music_chunk where
  "chunk_tag_only = MusicChunk [] (Some 1) None 0 5 9 None"

subsection \<open>Counting calls in the record of events\<close>

fun is_failed_play :: "event \<Rightarrow> bool" where
  "is_failed_play (EvPluginPlay bytes nbytes) = (nbytes = 0)"
| "is_failed_play e = False"

definition failed_plays :: "event list \<Rightarrow> nat" where
  "failed_plays evs = length (filter is_failed_play evs)"

fun is_set_info :: "event \<Rightarrow> bool" where
  "is_set_info (EvReplayGainSetInfo f info) = True"
| "is_set_info e = False"

definition set_info_calls :: "event list \<Rightarrow> nat" where
  "set_info_calls evs = length (filter is_set_info evs)"

subsection \<open>Invariants\<close>

text \<open>An open device is enabled, has a pipe and a valid input format.\<close>

definition open_inv :: "world \<Rightarrow> AudioOutput \<Rightarrow> bool" where
  "open_inv w s \<longleftrightarrow>
     (open s \<longrightarrow> really_enabled s \<and> pipe s \<noteq> None \<and> IsValid w (in_audio_format s))"

text \<open>While the device is open the fail timer is not set.\<close>

definition fail_timer_inv :: "AudioOutput \<Rightarrow> bool" where
  "fail_timer_inv s \<longleftrightarrow> (open s \<longrightarrow> \<not> fail_timer_IsDefined s)"

text \<open>
  \<open>quiet w s s'\<close>: from \<open>s\<close> to \<open>s'\<close> the device was neither opened nor
  closed nor disabled, the pipe and a valid input format were kept, and the fail
  timer was not touched.
\<close>

definition quiet :: "world \<Rightarrow> AudioOutput \<Rightarrow> AudioOutput \<Rightarrow> bool" where
  "quiet w s s' \<longleftrightarrow>
     open s' = open s
     \<and> (really_enabled s \<longrightarrow> really_enabled s')
     \<and> (pipe s \<noteq> None \<longrightarrow> pipe s' \<noteq> None)
     \<and> (IsValid w (in_audio_format s) \<longrightarrow> IsValid w (in_audio_format s'))
     \<and> fail_timer s' = fail_timer s"

text \<open>\<open>stays_open w s s'\<close>: if the device is open in \<open>s'\<close> then the step was quiet.\<close>

definition stays_open :: "world \<Rightarrow> AudioOutput \<Rightarrow> AudioOutput \<Rightarrow> bool" where
  "stays_open w s s' \<longleftrightarrow> (open s' \<longrightarrow> quiet w s s')"

text \<open>\<open>keeps_inv w s s'\<close>: each of the two invariants passes from \<open>s\<close> to \<open>s'\<close>.\<close>

definition keeps_inv :: "world \<Rightarrow> AudioOutput \<Rightarrow> AudioOutput \<Rightarrow> bool" where
  "keeps_inv w s s' \<longleftrightarrow>
     (open_inv w s \<longrightarrow> open_inv w s') \<and> (fail_timer_inv s \<longrightarrow> fail_timer_inv s')"

text \<open>
  Whether the command slot is taken, read from the events: a command was
  posted and the worker has not yet signalled that it is finished.
\<close>

fun ack_step :: "bool \<Rightarrow> event \<Rightarrow> bool" where
  "ack_step p (EvCommandPosted c) = True"
| "ack_step p EvClientNotify = False"
| "ack_step p e = p"

definition pending :: "event list \<Rightarrow> bool" where
  "pending evs = foldl ack_step False evs"

text \<open>
  The calls that are not part of a command: sending the tag of a new chunk,
  handing bytes to the device, and waiting for the controller.
\<close>

fun non_command_work :: "event \<Rightarrow> bool" where
  "non_command_work (EvPluginPlay bytes nbytes) = True"
| "non_command_work (EvPluginSendTag t) = True"
| "non_command_work EvCondWait = True"
| "non_command_work e = False"

definition work_waits :: "event list \<Rightarrow> bool" where
  "work_waits evs \<longleftrightarrow>
     (\<forall>n < length evs. non_command_work (evs ! n) \<longrightarrow> \<not> pending (take n evs))"

definition mailbox_inv :: "AudioOutput \<Rightarrow> bool" where
  "mailbox_inv s \<longleftrightarrow>
     (pending (events s) \<longleftrightarrow> command s \<noteq> AO_COMMAND_NONE) \<and> work_waits (events s)"

text \<open>The calls to the plugin and to the filters.\<close>

fun is_plugin_call :: "event \<Rightarrow> bool" where
  "is_plugin_call EvPluginEnable = True"
| "is_plugin_call EvPluginDisable = True"
| "is_plugin_call (EvPluginOpen af) = True"
| "is_plugin_call EvPluginClose = True"
| "is_plugin_call EvPluginDrain = True"
| "is_plugin_call EvPluginCancel = True"
| "is_plugin_call EvPluginPause = True"
| "is_plugin_call EvPluginDelay = True"
| "is_plugin_call (EvPluginPlay bytes nbytes) = True"
| "is_plugin_call (EvPluginSendTag t) = True"
| "is_plugin_call e = False"

fun is_filter_call :: "event \<Rightarrow> bool" where
  "is_filter_call (EvFilterOpen f af) = True"
| "is_filter_call (EvFilterClose f) = True"
| "is_filter_call (EvFilterPCM f bytes) = True"
| "is_filter_call (EvReplayGainSetInfo f info) = True"
| "is_filter_call (EvConvertFilterSet f af) = True"
| "is_filter_call (EvPcmMix dest src fmt portion) = True"
| "is_filter_call e = False"

text \<open>
  The object without the fields the controller writes and without the
  events: two objects with the same \<open>worker_fields\<close> differ at most in
  \<open>command\<close>, \<open>pipe\<close>, \<open>in_audio_format\<close>, \<open>allow_play\<close>, \<open>woken_for_play\<close> and
  \<open>events\<close>.
\<close>

definition worker_fields :: "AudioOutput \<Rightarrow> AudioOutput" where
  "worker_fields s =
     s\<lparr>command := AO_COMMAND_NONE, pipe := None, in_audio_format := af_undefined,
       allow_play := False, woken_for_play := False, events := []\<rparr>"

fun is_posted :: "event \<Rightarrow> bool" where
  "is_posted (EvCommandPosted c) = True"
| "is_posted e = False"

text \<open>\<open>kept_mailbox s s'\<close>: the fields the controller sets for a command are as before.\<close>

definition kept_mailbox :: "AudioOutput \<Rightarrow> AudioOutput \<Rightarrow> bool" where
  "kept_mailbox s s' \<longleftrightarrow>
     command s' = command s \<and> pipe s' = pipe s \<and> in_audio_format s' = in_audio_format s"

text \<open>Worlds in which one call fails.\<close>

definition world_enable_fails :: world where
  "world_enable_fails = world_ok\<lparr>ao_plugin_enable := (\<lambda>evs. False)\<rparr>"

definition world_convert_fails :: world where
  "world_convert_fails = world_ok\<lparr>convert_filter_set := (\<lambda>evs f af. False)\<rparr>"

text \<open>The pipe holds the chunk of 60 bytes, and the device takes no bytes.\<close>

definition world_play_fails :: world where
  "world_play_fails =
     world_ok\<lparr>ao_plugin_play := (\<lambda>evs bytes. 0), Peek := (\<lambda>evs mp. Some chunk_60)\<rparr>"

text \<open>
  \<open>returns m Q\<close>: if the run \<open>m\<close> ends without an error, \<open>Q\<close> holds of its
  result.
\<close>

definition returns :: "'a result \<Rightarrow> ('a \<Rightarrow> bool) \<Rightarrow> bool" where
  "returns m Q \<longleftrightarrow> (\<forall>x. m = Inr x \<longrightarrow> Q x)"

text \<open>The world in which the controller posts \<^verbatim>\<open>OPEN\<close> before the thread starts.\<close>

definition world_opens :: world where
  "world_opens =
     world_ok\<lparr>controller := (\<lambda>evs. if evs = [] then [CtlCommand AO_COMMAND_OPEN] else [])\<rparr>"

text \<open>Events that are neither part of the mailbox nor work between commands.\<close>

definition neutral :: "event \<Rightarrow> bool" where
  "neutral e \<longleftrightarrow> \<not> is_posted e \<and> e \<noteq> EvClientNotify \<and> \<not> non_command_work e"

text \<open>
  \<open>work_from p evs\<close>: the same check as \<open>work_waits\<close>, run along the events
  from a state \<open>p\<close> of the slot.
\<close>

fun work_from :: "bool \<Rightarrow> event list \<Rightarrow> bool" where
  "work_from p [] = True"
| "work_from p (e # es) = ((non_command_work e \<longrightarrow> \<not> p) \<and> work_from (ack_step p e) es)"

section \<open>Properties\<close>

lemma rbind_simps [simp]:
  "rbind (Inl e) f = Inl e"
  "rbind (Inr x) f = f x"
  by (simp_all add: rbind_def)

lemma rbind_eq_Inr: "rbind m f = Inr y \<longleftrightarrow> (\<exists>x. m = Inr x \<and> f x = Inr y)"
  by (cases m) simp_all

subsection \<open>Cross-fading in \<^verbatim>\<open>ao_filter_chunk\<close>\<close>




subsection \<open>The replay gain serial in \<^verbatim>\<open>ao_chunk_data\<close>\<close>

lemma events_emit [simp]: "events (emit e s) = events s @ [e]"
  by (simp add: emit_def)

lemma read_write_cell [simp]:
  "read_cell c (write_cell c v s) = v"
  "events (write_cell c v s) = events s"
  "read_cell c (emit e s) = read_cell c s"
  by (cases c; simp add: read_cell_def write_cell_def emit_def)+

lemma set_info_calls_append [simp]:
  "set_info_calls (xs @ ys) = set_info_calls xs + set_info_calls ys"
  by (simp add: set_info_calls_def)

lemma set_info_calls_simps [simp]:
  "set_info_calls [] = 0"
  "set_info_calls (e # es) = (if is_set_info e then 1 else 0) + set_info_calls es"
  by (simp_all add: set_info_calls_def)

lemma chunk_data_events:
  assumes "ao_chunk_data w chunk rgf cell s = Inr (d, s')"
  shows "events s' = events s @
           (case rgf of
              None \<Rightarrow> []
            | Some f \<Rightarrow>
                if data chunk = [] then []
                else (if replay_gain_serial chunk \<noteq> read_cell cell s
                      then [EvReplayGainSetInfo f
                              (if replay_gain_serial chunk \<noteq> 0
                               then Some (replay_gain_info chunk) else None)]
                      else [])
                     @ [EvFilterPCM f (data chunk)])"
    and "read_cell cell s' =
           (if rgf \<noteq> None \<and> data chunk \<noteq> []
            then replay_gain_serial chunk else read_cell cell s)"
  using assms
  by (auto simp: ao_chunk_data_def Let_def split: if_splits option.splits)

text \<open>
  Claim C6, amended.  A call of \<^verbatim>\<open>ao_chunk_data\<close> that returns calls
  \<^verbatim>\<open>replay_gain_filter_set_info\<close> exactly when a replay gain filter is given,
  the chunk has bytes, and the serial of the chunk differs from the one in
  the cell; the info is null when the serial of the chunk is zero; and the
  cell holds the serial of the chunk after every call with a filter and
  bytes.  Two calls in a row for chunks of the same serial make one call of
  \<^verbatim>\<open>set_info\<close> when there is a filter, the serial differs from the one in
  the cell before the first call and one of the two chunks has bytes, and
  none otherwise.
\<close>

theorem chunk_data_set_info:
  assumes first: "ao_chunk_data w c1 rgf cell s = Inr (d1, s1)"
  shows "events s1 = events s @
           (case rgf of
              None \<Rightarrow> []
            | Some f \<Rightarrow>
                if data c1 = [] then []
                else (if replay_gain_serial c1 \<noteq> read_cell cell s
                      then [EvReplayGainSetInfo f
                              (if replay_gain_serial c1 \<noteq> 0
                               then Some (replay_gain_info c1) else None)]
                      else [])
                     @ [EvFilterPCM f (data c1)])
         \<and> read_cell cell s1 =
             (if rgf \<noteq> None \<and> data c1 \<noteq> []
              then replay_gain_serial c1 else read_cell cell s)
         \<and> (\<forall>c2 d2 s2.
               ao_chunk_data w c2 rgf cell s1 = Inr (d2, s2)
               \<and> replay_gain_serial c2 = replay_gain_serial c1
               \<longrightarrow> set_info_calls (events s2) =
                     set_info_calls (events s) +
                       (if rgf \<noteq> None \<and> replay_gain_serial c1 \<noteq> read_cell cell s
                           \<and> (data c1 \<noteq> [] \<or> data c2 \<noteq> [])
                        then 1 else 0))"
proof (intro conjI allI impI)
  show "events s1 = events s @
           (case rgf of
              None \<Rightarrow> []
            | Some f \<Rightarrow>
                if data c1 = [] then []
                else (if replay_gain_serial c1 \<noteq> read_cell cell s
                      then [EvReplayGainSetInfo f
                              (if replay_gain_serial c1 \<noteq> 0
                               then Some (replay_gain_info c1) else None)]
                      else [])
                     @ [EvFilterPCM f (data c1)])"
    by (rule chunk_data_events(1) [OF first])
  show "read_cell cell s1 =
          (if rgf \<noteq> None \<and> data c1 \<noteq> []
           then replay_gain_serial c1 else read_cell cell s)"
    by (rule chunk_data_events(2) [OF first])
next
  fix c2 d2 s2
  assume "ao_chunk_data w c2 rgf cell s1 = Inr (d2, s2)
          \<and> replay_gain_serial c2 = replay_gain_serial c1"
  then have second: "ao_chunk_data w c2 rgf cell s1 = Inr (d2, s2)"
    and same: "replay_gain_serial c2 = replay_gain_serial c1"
    by simp_all
  show "set_info_calls (events s2) =
          set_info_calls (events s) +
            (if rgf \<noteq> None \<and> replay_gain_serial c1 \<noteq> read_cell cell s
                \<and> (data c1 \<noteq> [] \<or> data c2 \<noteq> [])
             then 1 else 0)"
    using chunk_data_events [OF first] chunk_data_events [OF second] same
    by (cases rgf) auto
qed

theorem chunk_data_set_info_witness:
  "\<exists>d1 s1. ao_chunk_data world_ok chunk_100 (Some 3) REPLAY_GAIN_SERIAL ao_playing
              = Inr (d1, s1)
     \<and> events s1 = [EvReplayGainSetInfo 3 (Some 0), EvFilterPCM 3 (replicate 100 2)]
     \<and> read_cell REPLAY_GAIN_SERIAL s1 = 7
     \<and> (\<forall>d2 s2. ao_chunk_data world_ok chunk_100 (Some 3) REPLAY_GAIN_SERIAL s1
                    = Inr (d2, s2)
           \<longrightarrow> set_info_calls (events s2) = 1)"
proof -
  have "\<exists>d1 s1. ao_chunk_data world_ok chunk_100 (Some 3) REPLAY_GAIN_SERIAL ao_playing
                  = Inr (d1, s1)"
    by (simp add: ao_chunk_data_def world_ok_def chunk_100_def ao_playing_def ao_idle_def
        Let_def)
  then obtain d1 s1 where
    first: "ao_chunk_data world_ok chunk_100 (Some 3) REPLAY_GAIN_SERIAL ao_playing
              = Inr (d1, s1)"
    by blast
  have sel: "events ao_playing = []" "read_cell REPLAY_GAIN_SERIAL ao_playing = 0"
    "data chunk_100 = replicate 100 2" "replay_gain_serial chunk_100 = 7"
    "replay_gain_info chunk_100 = 0"
    by (simp_all add: read_cell_def chunk_100_def ao_playing_def ao_idle_def)
  note t = chunk_data_set_info [OF first]
  from t have ev: "events s1 = [EvReplayGainSetInfo 3 (Some 0), EvFilterPCM 3 (replicate 100 2)]"
    and cell: "read_cell REPLAY_GAIN_SERIAL s1 = 7"
    by (simp_all add: sel)
  have two: "set_info_calls (events s2) = 1"
    if h: "ao_chunk_data world_ok chunk_100 (Some 3) REPLAY_GAIN_SERIAL s1 = Inr (d2, s2)"
    for d2 s2
  proof -
    from t have "ao_chunk_data world_ok chunk_100 (Some 3) REPLAY_GAIN_SERIAL s1 = Inr (d2, s2)
        \<and> replay_gain_serial chunk_100 = replay_gain_serial chunk_100
      \<longrightarrow> set_info_calls (events s2) =
            set_info_calls (events ao_playing) +
              (if Some (3::nat) \<noteq> None
                  \<and> replay_gain_serial chunk_100 \<noteq> read_cell REPLAY_GAIN_SERIAL ao_playing
                  \<and> (data chunk_100 \<noteq> [] \<or> data chunk_100 \<noteq> [])
               then 1 else 0)"
      by blast
    with h show ?thesis
      by (simp add: sel)
  qed
  show ?thesis
    by (intro exI [of _ d1] exI [of _ s1]) (simp add: first ev cell two)
qed

text \<open>
  A chunk that carries a tag and no bytes is handed through without a call
  of \<^verbatim>\<open>set_info\<close>, although its serial differs from the one in the cell.
\<close>

theorem chunk_data_set_info_counterexample:
  "replay_gain_serial chunk_tag_only \<noteq> read_cell REPLAY_GAIN_SERIAL ao_playing
   \<and> ao_chunk_data world_ok chunk_tag_only (Some 3) REPLAY_GAIN_SERIAL ao_playing
       = Inr (Some [], ao_playing)"
  by (simp add: ao_chunk_data_def world_ok_def chunk_tag_only_def read_cell_def
      ao_playing_def ao_idle_def)

subsection \<open>What the controller and the primitive steps leave alone\<close>

lemma emit_fields [simp]:
  "tags (emit e s) = tags s"
  "really_enabled (emit e s) = really_enabled s"
  "open (emit e s) = open s"
  "pause (emit e s) = pause s"
  "allow_play (emit e s) = allow_play s"
  "in_playback_loop (emit e s) = in_playback_loop s"
  "woken_for_play (emit e s) = woken_for_play s"
  "current_chunk (emit e s) = current_chunk s"
  "current_chunk_finished (emit e s) = current_chunk_finished s"
  "pipe (emit e s) = pipe s"
  "in_audio_format (emit e s) = in_audio_format s"
  "out_audio_format (emit e s) = out_audio_format s"
  "config_audio_format (emit e s) = config_audio_format s"
  "filter' (emit e s) = filter' s"
  "convert_filter (emit e s) = convert_filter s"
  "replay_gain_filter (emit e s) = replay_gain_filter s"
  "other_replay_gain_filter (emit e s) = other_replay_gain_filter s"
  "replay_gain_serial_ao (emit e s) = replay_gain_serial_ao s"
  "other_replay_gain_serial (emit e s) = other_replay_gain_serial s"
  "cross_fade_buffer (emit e s) = cross_fade_buffer s"
  "fail_timer (emit e s) = fail_timer s"
  "command (emit e s) = command s"
  by (simp_all add: emit_def)

text \<open>The fields the controller never writes.\<close>

lemma ctl_apply_fields [simp]:
  "tags (ctl_apply w a s) = tags s"
  "really_enabled (ctl_apply w a s) = really_enabled s"
  "open (ctl_apply w a s) = open s"
  "pause (ctl_apply w a s) = pause s"
  "in_playback_loop (ctl_apply w a s) = in_playback_loop s"
  "current_chunk (ctl_apply w a s) = current_chunk s"
  "current_chunk_finished (ctl_apply w a s) = current_chunk_finished s"
  "out_audio_format (ctl_apply w a s) = out_audio_format s"
  "config_audio_format (ctl_apply w a s) = config_audio_format s"
  "filter' (ctl_apply w a s) = filter' s"
  "convert_filter (ctl_apply w a s) = convert_filter s"
  "replay_gain_filter (ctl_apply w a s) = replay_gain_filter s"
  "other_replay_gain_filter (ctl_apply w a s) = other_replay_gain_filter s"
  "replay_gain_serial_ao (ctl_apply w a s) = replay_gain_serial_ao s"
  "other_replay_gain_serial (ctl_apply w a s) = other_replay_gain_serial s"
  "cross_fade_buffer (ctl_apply w a s) = cross_fade_buffer s"
  "fail_timer (ctl_apply w a s) = fail_timer s"
  by (cases a; simp)+

lemma ctl_run_fields [simp]:
  "tags (ctl_run w as s) = tags s"
  "really_enabled (ctl_run w as s) = really_enabled s"
  "open (ctl_run w as s) = open s"
  "pause (ctl_run w as s) = pause s"
  "in_playback_loop (ctl_run w as s) = in_playback_loop s"
  "current_chunk (ctl_run w as s) = current_chunk s"
  "current_chunk_finished (ctl_run w as s) = current_chunk_finished s"
  "out_audio_format (ctl_run w as s) = out_audio_format s"
  "config_audio_format (ctl_run w as s) = config_audio_format s"
  "filter' (ctl_run w as s) = filter' s"
  "convert_filter (ctl_run w as s) = convert_filter s"
  "replay_gain_filter (ctl_run w as s) = replay_gain_filter s"
  "other_replay_gain_filter (ctl_run w as s) = other_replay_gain_filter s"
  "replay_gain_serial_ao (ctl_run w as s) = replay_gain_serial_ao s"
  "other_replay_gain_serial (ctl_run w as s) = other_replay_gain_serial s"
  "cross_fade_buffer (ctl_run w as s) = cross_fade_buffer s"
  "fail_timer (ctl_run w as s) = fail_timer s"
  by (induction as arbitrary: s; simp)+

lemma ctl_window_fields [simp]:
  "tags (ctl_window w s) = tags s"
  "really_enabled (ctl_window w s) = really_enabled s"
  "open (ctl_window w s) = open s"
  "pause (ctl_window w s) = pause s"
  "in_playback_loop (ctl_window w s) = in_playback_loop s"
  "current_chunk (ctl_window w s) = current_chunk s"
  "current_chunk_finished (ctl_window w s) = current_chunk_finished s"
  "out_audio_format (ctl_window w s) = out_audio_format s"
  "config_audio_format (ctl_window w s) = config_audio_format s"
  "filter' (ctl_window w s) = filter' s"
  "convert_filter (ctl_window w s) = convert_filter s"
  "replay_gain_filter (ctl_window w s) = replay_gain_filter s"
  "other_replay_gain_filter (ctl_window w s) = other_replay_gain_filter s"
  "replay_gain_serial_ao (ctl_window w s) = replay_gain_serial_ao s"
  "other_replay_gain_serial (ctl_window w s) = other_replay_gain_serial s"
  "cross_fade_buffer (ctl_window w s) = cross_fade_buffer s"
  "fail_timer (ctl_window w s) = fail_timer s"
  by (simp_all add: ctl_window_def)

text \<open>While a command is in the slot the controller leaves the mailbox alone.\<close>

lemma ctl_apply_busy:
  assumes "command s \<noteq> AO_COMMAND_NONE"
  shows "command (ctl_apply w a s) = command s"
    and "pipe (ctl_apply w a s) = pipe s"
    and "in_audio_format (ctl_apply w a s) = in_audio_format s"
    and "events (ctl_apply w a s) = events s"
  using assms by (cases a; simp)+

lemma ctl_run_busy:
  assumes "command s \<noteq> AO_COMMAND_NONE"
  shows "command (ctl_run w as s) = command s"
    and "pipe (ctl_run w as s) = pipe s"
    and "in_audio_format (ctl_run w as s) = in_audio_format s"
    and "events (ctl_run w as s) = events s"
  using assms by (induction as arbitrary: s; simp add: ctl_apply_busy)+

lemma ctl_window_busy:
  assumes "command s \<noteq> AO_COMMAND_NONE"
  shows "command (ctl_window w s) = command s"
    and "pipe (ctl_window w s) = pipe s"
    and "in_audio_format (ctl_window w s) = in_audio_format s"
    and "events (ctl_window w s) = events s"
  using assms by (simp_all add: ctl_window_def ctl_run_busy)

text \<open>The controller never takes the pipe away or sets a format that is not valid.\<close>

lemma ctl_apply_keeps:
  "pipe s \<noteq> None \<Longrightarrow> pipe (ctl_apply w a s) \<noteq> None"
  "IsValid w (in_audio_format s) \<Longrightarrow> IsValid w (in_audio_format (ctl_apply w a s))"
  by (cases a; simp)+

lemma ctl_run_keeps:
  "pipe s \<noteq> None \<Longrightarrow> pipe (ctl_run w as s) \<noteq> None"
  "IsValid w (in_audio_format s) \<Longrightarrow> IsValid w (in_audio_format (ctl_run w as s))"
  by (induction as arbitrary: s; simp add: ctl_apply_keeps del: not_None_eq)+

lemma ctl_window_keeps:
  "pipe s \<noteq> None \<Longrightarrow> pipe (ctl_window w s) \<noteq> None"
  "IsValid w (in_audio_format s) \<Longrightarrow> IsValid w (in_audio_format (ctl_window w s))"
  by (simp_all add: ctl_window_def ctl_run_keeps)

lemma mutex_unlock_fields [simp]:
  "tags (mutex_unlock s) = tags s"
  "really_enabled (mutex_unlock s) = really_enabled s"
  "open (mutex_unlock s) = open s"
  "pause (mutex_unlock s) = pause s"
  "in_playback_loop (mutex_unlock s) = in_playback_loop s"
  "current_chunk (mutex_unlock s) = current_chunk s"
  "current_chunk_finished (mutex_unlock s) = current_chunk_finished s"
  "out_audio_format (mutex_unlock s) = out_audio_format s"
  "config_audio_format (mutex_unlock s) = config_audio_format s"
  "filter' (mutex_unlock s) = filter' s"
  "convert_filter (mutex_unlock s) = convert_filter s"
  "replay_gain_filter (mutex_unlock s) = replay_gain_filter s"
  "other_replay_gain_filter (mutex_unlock s) = other_replay_gain_filter s"
  "replay_gain_serial_ao (mutex_unlock s) = replay_gain_serial_ao s"
  "other_replay_gain_serial (mutex_unlock s) = other_replay_gain_serial s"
  "cross_fade_buffer (mutex_unlock s) = cross_fade_buffer s"
  "fail_timer (mutex_unlock s) = fail_timer s"
  "allow_play (mutex_unlock s) = allow_play s"
  "woken_for_play (mutex_unlock s) = woken_for_play s"
  "pipe (mutex_unlock s) = pipe s"
  "in_audio_format (mutex_unlock s) = in_audio_format s"
  "command (mutex_unlock s) = command s"
  by (simp_all add: mutex_unlock_def)

lemma events_mutex_unlock [simp]: "events (mutex_unlock s) = events s @ [EvMutexUnlock]"
  by (simp add: mutex_unlock_def)

lemma mutex_lock_fields [simp]:
  "tags (mutex_lock w s) = tags s"
  "really_enabled (mutex_lock w s) = really_enabled s"
  "open (mutex_lock w s) = open s"
  "pause (mutex_lock w s) = pause s"
  "in_playback_loop (mutex_lock w s) = in_playback_loop s"
  "current_chunk (mutex_lock w s) = current_chunk s"
  "current_chunk_finished (mutex_lock w s) = current_chunk_finished s"
  "out_audio_format (mutex_lock w s) = out_audio_format s"
  "config_audio_format (mutex_lock w s) = config_audio_format s"
  "filter' (mutex_lock w s) = filter' s"
  "convert_filter (mutex_lock w s) = convert_filter s"
  "replay_gain_filter (mutex_lock w s) = replay_gain_filter s"
  "other_replay_gain_filter (mutex_lock w s) = other_replay_gain_filter s"
  "replay_gain_serial_ao (mutex_lock w s) = replay_gain_serial_ao s"
  "other_replay_gain_serial (mutex_lock w s) = other_replay_gain_serial s"
  "cross_fade_buffer (mutex_lock w s) = cross_fade_buffer s"
  "fail_timer (mutex_lock w s) = fail_timer s"
  by (simp_all add: mutex_lock_def)

lemma cond_wait_fields [simp]:
  "tags (cond_wait w s) = tags s"
  "really_enabled (cond_wait w s) = really_enabled s"
  "open (cond_wait w s) = open s"
  "pause (cond_wait w s) = pause s"
  "in_playback_loop (cond_wait w s) = in_playback_loop s"
  "current_chunk (cond_wait w s) = current_chunk s"
  "current_chunk_finished (cond_wait w s) = current_chunk_finished s"
  "out_audio_format (cond_wait w s) = out_audio_format s"
  "config_audio_format (cond_wait w s) = config_audio_format s"
  "filter' (cond_wait w s) = filter' s"
  "convert_filter (cond_wait w s) = convert_filter s"
  "replay_gain_filter (cond_wait w s) = replay_gain_filter s"
  "other_replay_gain_filter (cond_wait w s) = other_replay_gain_filter s"
  "replay_gain_serial_ao (cond_wait w s) = replay_gain_serial_ao s"
  "other_replay_gain_serial (cond_wait w s) = other_replay_gain_serial s"
  "cross_fade_buffer (cond_wait w s) = cross_fade_buffer s"
  "fail_timer (cond_wait w s) = fail_timer s"
  by (simp_all add: cond_wait_def)

lemma cond_timed_wait_fields [simp]:
  "tags (cond_timed_wait w t s) = tags s"
  "really_enabled (cond_timed_wait w t s) = really_enabled s"
  "open (cond_timed_wait w t s) = open s"
  "pause (cond_timed_wait w t s) = pause s"
  "in_playback_loop (cond_timed_wait w t s) = in_playback_loop s"
  "current_chunk (cond_timed_wait w t s) = current_chunk s"
  "current_chunk_finished (cond_timed_wait w t s) = current_chunk_finished s"
  "out_audio_format (cond_timed_wait w t s) = out_audio_format s"
  "config_audio_format (cond_timed_wait w t s) = config_audio_format s"
  "filter' (cond_timed_wait w t s) = filter' s"
  "convert_filter (cond_timed_wait w t s) = convert_filter s"
  "replay_gain_filter (cond_timed_wait w t s) = replay_gain_filter s"
  "other_replay_gain_filter (cond_timed_wait w t s) = other_replay_gain_filter s"
  "replay_gain_serial_ao (cond_timed_wait w t s) = replay_gain_serial_ao s"
  "other_replay_gain_serial (cond_timed_wait w t s) = other_replay_gain_serial s"
  "cross_fade_buffer (cond_timed_wait w t s) = cross_fade_buffer s"
  "fail_timer (cond_timed_wait w t s) = fail_timer s"
  by (simp_all add: cond_timed_wait_def)

lemma filter_close_fields [simp]:
  "tags (filter_close f s) = tags s"
  "really_enabled (filter_close f s) = really_enabled s"
  "open (filter_close f s) = open s"
  "pause (filter_close f s) = pause s"
  "in_playback_loop (filter_close f s) = in_playback_loop s"
  "current_chunk (filter_close f s) = current_chunk s"
  "current_chunk_finished (filter_close f s) = current_chunk_finished s"
  "out_audio_format (filter_close f s) = out_audio_format s"
  "config_audio_format (filter_close f s) = config_audio_format s"
  "filter' (filter_close f s) = filter' s"
  "convert_filter (filter_close f s) = convert_filter s"
  "replay_gain_filter (filter_close f s) = replay_gain_filter s"
  "other_replay_gain_filter (filter_close f s) = other_replay_gain_filter s"
  "replay_gain_serial_ao (filter_close f s) = replay_gain_serial_ao s"
  "other_replay_gain_serial (filter_close f s) = other_replay_gain_serial s"
  "cross_fade_buffer (filter_close f s) = cross_fade_buffer s"
  "fail_timer (filter_close f s) = fail_timer s"
  "allow_play (filter_close f s) = allow_play s"
  "woken_for_play (filter_close f s) = woken_for_play s"
  "pipe (filter_close f s) = pipe s"
  "in_audio_format (filter_close f s) = in_audio_format s"
  "command (filter_close f s) = command s"
  by (simp_all add: filter_close_def)

lemma filter_close_opt_fields [simp]:
  "tags (filter_close_opt fo s) = tags s"
  "really_enabled (filter_close_opt fo s) = really_enabled s"
  "open (filter_close_opt fo s) = open s"
  "pause (filter_close_opt fo s) = pause s"
  "in_playback_loop (filter_close_opt fo s) = in_playback_loop s"
  "current_chunk (filter_close_opt fo s) = current_chunk s"
  "current_chunk_finished (filter_close_opt fo s) = current_chunk_finished s"
  "out_audio_format (filter_close_opt fo s) = out_audio_format s"
  "config_audio_format (filter_close_opt fo s) = config_audio_format s"
  "filter' (filter_close_opt fo s) = filter' s"
  "convert_filter (filter_close_opt fo s) = convert_filter s"
  "replay_gain_filter (filter_close_opt fo s) = replay_gain_filter s"
  "other_replay_gain_filter (filter_close_opt fo s) = other_replay_gain_filter s"
  "replay_gain_serial_ao (filter_close_opt fo s) = replay_gain_serial_ao s"
  "other_replay_gain_serial (filter_close_opt fo s) = other_replay_gain_serial s"
  "cross_fade_buffer (filter_close_opt fo s) = cross_fade_buffer s"
  "fail_timer (filter_close_opt fo s) = fail_timer s"
  "allow_play (filter_close_opt fo s) = allow_play s"
  "woken_for_play (filter_close_opt fo s) = woken_for_play s"
  "pipe (filter_close_opt fo s) = pipe s"
  "in_audio_format (filter_close_opt fo s) = in_audio_format s"
  "command (filter_close_opt fo s) = command s"
  by (simp_all add: filter_close_opt_def split: option.split)

lemma CloseFilter_fields [simp]:
  "tags (CloseFilter s) = tags s"
  "really_enabled (CloseFilter s) = really_enabled s"
  "open (CloseFilter s) = open s"
  "pause (CloseFilter s) = pause s"
  "in_playback_loop (CloseFilter s) = in_playback_loop s"
  "current_chunk (CloseFilter s) = current_chunk s"
  "current_chunk_finished (CloseFilter s) = current_chunk_finished s"
  "out_audio_format (CloseFilter s) = out_audio_format s"
  "config_audio_format (CloseFilter s) = config_audio_format s"
  "filter' (CloseFilter s) = filter' s"
  "convert_filter (CloseFilter s) = convert_filter s"
  "replay_gain_filter (CloseFilter s) = replay_gain_filter s"
  "other_replay_gain_filter (CloseFilter s) = other_replay_gain_filter s"
  "replay_gain_serial_ao (CloseFilter s) = replay_gain_serial_ao s"
  "other_replay_gain_serial (CloseFilter s) = other_replay_gain_serial s"
  "cross_fade_buffer (CloseFilter s) = cross_fade_buffer s"
  "fail_timer (CloseFilter s) = fail_timer s"
  "allow_play (CloseFilter s) = allow_play s"
  "woken_for_play (CloseFilter s) = woken_for_play s"
  "pipe (CloseFilter s) = pipe s"
  "in_audio_format (CloseFilter s) = in_audio_format s"
  "command (CloseFilter s) = command s"
  by (simp_all add: CloseFilter_def Let_def)

lemma fail_timer_Update_fields [simp]:
  "tags (fail_timer_Update w s) = tags s"
  "really_enabled (fail_timer_Update w s) = really_enabled s"
  "open (fail_timer_Update w s) = open s"
  "pause (fail_timer_Update w s) = pause s"
  "in_playback_loop (fail_timer_Update w s) = in_playback_loop s"
  "current_chunk (fail_timer_Update w s) = current_chunk s"
  "current_chunk_finished (fail_timer_Update w s) = current_chunk_finished s"
  "out_audio_format (fail_timer_Update w s) = out_audio_format s"
  "config_audio_format (fail_timer_Update w s) = config_audio_format s"
  "filter' (fail_timer_Update w s) = filter' s"
  "convert_filter (fail_timer_Update w s) = convert_filter s"
  "replay_gain_filter (fail_timer_Update w s) = replay_gain_filter s"
  "other_replay_gain_filter (fail_timer_Update w s) = other_replay_gain_filter s"
  "replay_gain_serial_ao (fail_timer_Update w s) = replay_gain_serial_ao s"
  "other_replay_gain_serial (fail_timer_Update w s) = other_replay_gain_serial s"
  "cross_fade_buffer (fail_timer_Update w s) = cross_fade_buffer s"
  "allow_play (fail_timer_Update w s) = allow_play s"
  "woken_for_play (fail_timer_Update w s) = woken_for_play s"
  "pipe (fail_timer_Update w s) = pipe s"
  "in_audio_format (fail_timer_Update w s) = in_audio_format s"
  "command (fail_timer_Update w s) = command s"
  by (simp_all add: fail_timer_Update_def)

lemma events_fail_timer_Update [simp]: "events (fail_timer_Update w s) = events s"
  by (simp add: fail_timer_Update_def)

lemma fail_timer_Update_defined [simp]: "fail_timer (fail_timer_Update w s) \<noteq> None"
  by (simp add: fail_timer_Update_def)

lemma fail_timer_Reset_fields [simp]:
  "tags (fail_timer_Reset s) = tags s"
  "really_enabled (fail_timer_Reset s) = really_enabled s"
  "open (fail_timer_Reset s) = open s"
  "pause (fail_timer_Reset s) = pause s"
  "in_playback_loop (fail_timer_Reset s) = in_playback_loop s"
  "current_chunk (fail_timer_Reset s) = current_chunk s"
  "current_chunk_finished (fail_timer_Reset s) = current_chunk_finished s"
  "out_audio_format (fail_timer_Reset s) = out_audio_format s"
  "config_audio_format (fail_timer_Reset s) = config_audio_format s"
  "filter' (fail_timer_Reset s) = filter' s"
  "convert_filter (fail_timer_Reset s) = convert_filter s"
  "replay_gain_filter (fail_timer_Reset s) = replay_gain_filter s"
  "other_replay_gain_filter (fail_timer_Reset s) = other_replay_gain_filter s"
  "replay_gain_serial_ao (fail_timer_Reset s) = replay_gain_serial_ao s"
  "other_replay_gain_serial (fail_timer_Reset s) = other_replay_gain_serial s"
  "cross_fade_buffer (fail_timer_Reset s) = cross_fade_buffer s"
  "allow_play (fail_timer_Reset s) = allow_play s"
  "woken_for_play (fail_timer_Reset s) = woken_for_play s"
  "pipe (fail_timer_Reset s) = pipe s"
  "in_audio_format (fail_timer_Reset s) = in_audio_format s"
  "command (fail_timer_Reset s) = command s"
  by (simp_all add: fail_timer_Reset_def)

lemma fail_timer_Reset_simps [simp]:
  "fail_timer (fail_timer_Reset s) = None"
  "events (fail_timer_Reset s) = events s"
  by (simp_all add: fail_timer_Reset_def)

text \<open>The windows in which the controller may act.\<close>

lemma window_busy:
  assumes "command s \<noteq> AO_COMMAND_NONE"
  shows "command (mutex_lock w s) = command s"
    and "pipe (mutex_lock w s) = pipe s"
    and "in_audio_format (mutex_lock w s) = in_audio_format s"
    and "events (mutex_lock w s) = events s @ [EvMutexLock]"
  using assms by (simp_all add: mutex_lock_def ctl_window_busy)

lemma window_keeps [simp]:
  "pipe s \<noteq> None \<Longrightarrow> pipe (mutex_lock w s) \<noteq> None"
  "IsValid w (in_audio_format s) \<Longrightarrow> IsValid w (in_audio_format (mutex_lock w s))"
  "pipe s \<noteq> None \<Longrightarrow> pipe (cond_wait w s) \<noteq> None"
  "IsValid w (in_audio_format s) \<Longrightarrow> IsValid w (in_audio_format (cond_wait w s))"
  "pipe s \<noteq> None \<Longrightarrow> pipe (cond_timed_wait w t s) \<noteq> None"
  "IsValid w (in_audio_format s) \<Longrightarrow> IsValid w (in_audio_format (cond_timed_wait w t s))"
  by (simp_all add: mutex_lock_def cond_wait_def cond_timed_wait_def ctl_window_keeps
      del: not_None_eq)

subsection \<open>Steps that leave the device as it is\<close>

lemma quiet_refl [simp]: "quiet w s s"
  by (simp add: quiet_def)

lemma quiet_trans: "quiet w s s1 \<Longrightarrow> quiet w s1 s2 \<Longrightarrow> quiet w s s2"
  by (simp add: quiet_def)

lemma quiet_stays_open: "quiet w s s' \<Longrightarrow> stays_open w s s'"
  by (simp add: stays_open_def)

lemma stays_open_refl [simp]: "stays_open w s s"
  by (simp add: stays_open_def)

lemma stays_open_trans: "stays_open w s s1 \<Longrightarrow> stays_open w s1 s2 \<Longrightarrow> stays_open w s s2"
  by (auto simp: stays_open_def quiet_def)

lemma closed_stays_open [simp]: "\<not> open s' \<Longrightarrow> stays_open w s s'"
  by (simp add: stays_open_def)

lemma quiet_steps [simp]:
  "quiet w s (emit e s)"
  "quiet w s (mutex_unlock s)"
  "quiet w s (mutex_lock w s)"
  "quiet w s (cond_wait w s)"
  "quiet w s (cond_timed_wait w t s)"
  "quiet w s (filter_close f s)"
  "quiet w s (filter_close_opt fo s)"
  "quiet w s (CloseFilter s)"
  by (simp_all add: quiet_def del: not_None_eq)

lemma quiet_updates [simp]:
  "quiet w s (s'\<lparr>command := x0\<rparr>) = quiet w s s'"
  "quiet w s (s'\<lparr>pause := x1\<rparr>) = quiet w s s'"
  "quiet w s (s'\<lparr>allow_play := x2\<rparr>) = quiet w s s'"
  "quiet w s (s'\<lparr>in_playback_loop := x3\<rparr>) = quiet w s s'"
  "quiet w s (s'\<lparr>woken_for_play := x4\<rparr>) = quiet w s s'"
  "quiet w s (s'\<lparr>current_chunk := x5\<rparr>) = quiet w s s'"
  "quiet w s (s'\<lparr>current_chunk_finished := x6\<rparr>) = quiet w s s'"
  "quiet w s (s'\<lparr>out_audio_format := x7\<rparr>) = quiet w s s'"
  "quiet w s (s'\<lparr>replay_gain_serial_ao := x8\<rparr>) = quiet w s s'"
  "quiet w s (s'\<lparr>other_replay_gain_serial := x9\<rparr>) = quiet w s s'"
  "quiet w s (s'\<lparr>cross_fade_buffer := x10\<rparr>) = quiet w s s'"
  "quiet w s (s'\<lparr>events := x11\<rparr>) = quiet w s s'"
  by (simp_all add: quiet_def)

lemma quiet_after:
  "quiet w s s' \<Longrightarrow> quiet w s (emit e s')"
  "quiet w s s' \<Longrightarrow> quiet w s (mutex_unlock s')"
  "quiet w s s' \<Longrightarrow> quiet w s (mutex_lock w s')"
  "quiet w s s' \<Longrightarrow> quiet w s (cond_wait w s')"
  "quiet w s s' \<Longrightarrow> quiet w s (cond_timed_wait w t s')"
  "quiet w s s' \<Longrightarrow> quiet w s (CloseFilter s')"
  by (erule quiet_trans, simp)+

lemma open_inv_quiet: "open_inv w s \<Longrightarrow> quiet w s s' \<Longrightarrow> open_inv w s'"
  by (auto simp: open_inv_def quiet_def)

lemma fail_timer_inv_quiet: "fail_timer_inv s \<Longrightarrow> quiet w s s' \<Longrightarrow> fail_timer_inv s'"
  by (auto simp: fail_timer_inv_def fail_timer_IsDefined_def quiet_def)

lemma open_inv_stays_open: "open_inv w s \<Longrightarrow> stays_open w s s' \<Longrightarrow> open_inv w s'"
  by (auto simp: open_inv_def stays_open_def quiet_def)

lemma fail_timer_inv_stays_open:
  "fail_timer_inv s \<Longrightarrow> stays_open w s s' \<Longrightarrow> fail_timer_inv s'"
  by (auto simp: fail_timer_inv_def fail_timer_IsDefined_def stays_open_def quiet_def)

lemma CommandFinished_quiet: "CommandFinished w s = Inr s' \<Longrightarrow> quiet w s s'"
  by (auto simp: CommandFinished_def unlocked_call_def split: if_splits intro!: quiet_after)

lemma quiet_enabled: "quiet w s s' \<Longrightarrow> quiet w s (s'\<lparr>really_enabled := True\<rparr>)"
  by (simp add: quiet_def)

lemma Enable_quiet: "quiet w s (snd (Enable w s))"
  by (auto simp: Enable_def Let_def unlocked_call_def intro!: quiet_after quiet_enabled)

lemma Enable_enabled: "fst (Enable w s) \<Longrightarrow> really_enabled (snd (Enable w s))"
  by (simp add: Enable_def Let_def split: if_splits)

lemma filter_open_quiet: "quiet w s (snd (filter_open w f af s))"
  by (simp add: filter_open_def)

lemma OpenFilter_quiet: "OpenFilter w af s = Inr (r, s') \<Longrightarrow> quiet w s s'"
  by (auto simp: OpenFilter_def Let_def filter_open_def filter_close_opt_def filter_close_def
      split: if_splits option.splits prod.splits intro!: quiet_after)

lemma Close_closed: "Close w drain s = Inr s' \<Longrightarrow> \<not> open s'"
  by (auto simp: Close_def Let_def split: if_splits)

lemma Disable_closed: "Disable w s = Inr s' \<Longrightarrow> \<not> open s'"
  by (auto simp: Disable_def rbind_eq_Inr unlocked_call_def dest: Close_closed split: if_splits)

subsection \<open>What the controller adds to the events\<close>

lemma ctl_apply_events:
  "events (ctl_apply w a s) = events s @
     (if command s = AO_COMMAND_NONE \<and> command (ctl_apply w a s) \<noteq> AO_COMMAND_NONE
      then [EvCommandPosted (command (ctl_apply w a s))] else [])"
  by (cases a) simp_all

lemma ctl_run_events:
  "events (ctl_run w as s) = events s @
     (if command s = AO_COMMAND_NONE \<and> command (ctl_run w as s) \<noteq> AO_COMMAND_NONE
      then [EvCommandPosted (command (ctl_run w as s))] else [])"
proof (induction as arbitrary: s)
  case Nil
  show ?case by simp
next
  case (Cons a as)
  show ?case
  proof (cases "command (ctl_apply w a s) = AO_COMMAND_NONE")
    case True
    then have "command s = AO_COMMAND_NONE" "events (ctl_apply w a s) = events s"
      using ctl_apply_busy(1) [of s w a] ctl_apply_events [of w a s] by auto
    with Cons [of "ctl_apply w a s"] True show ?thesis by simp
  next
    case False
    then show ?thesis
      using ctl_apply_events [of w a s] ctl_apply_busy(1) [of s w a]
      by (simp add: ctl_run_busy)
  qed
qed

lemma ctl_window_events:
  "events (ctl_window w s) = events s @
     (if command s = AO_COMMAND_NONE \<and> command (ctl_window w s) \<noteq> AO_COMMAND_NONE
      then [EvCommandPosted (command (ctl_window w s))] else [])"
  by (simp add: ctl_window_def ctl_run_events [of w _ s])

lemma worker_fields_ctl_apply [simp]: "worker_fields (ctl_apply w a s) = worker_fields s"
  by (cases a) (simp_all add: worker_fields_def emit_def)

lemma worker_fields_ctl_run [simp]: "worker_fields (ctl_run w as s) = worker_fields s"
  by (induction as arbitrary: s) simp_all

lemma worker_fields_steps [simp]:
  "worker_fields (ctl_window w s) = worker_fields s"
  "worker_fields (emit e s) = worker_fields s"
  "worker_fields (mutex_unlock s) = worker_fields s"
  "worker_fields (mutex_lock w s) = worker_fields s"
  "worker_fields (cond_wait w s) = worker_fields s"
  "worker_fields (cond_timed_wait w t s) = worker_fields s"
  "worker_fields (s\<lparr>command := c\<rparr>) = worker_fields s"
  by (simp_all add: ctl_window_def mutex_lock_def cond_wait_def cond_timed_wait_def
      mutex_unlock_def) (simp_all add: worker_fields_def emit_def)

lemma mutex_lock_events:
  "events (mutex_lock w s) = events s @
     (if command s = AO_COMMAND_NONE \<and> command (mutex_lock w s) \<noteq> AO_COMMAND_NONE
      then [EvCommandPosted (command (mutex_lock w s))] else []) @ [EvMutexLock]"
  by (simp add: mutex_lock_def emit_def ctl_window_events [of w s])

lemma mutex_lock_idle:
  "controller w (events s) = [] \<Longrightarrow> mutex_lock w s = emit EvMutexLock s"
  by (simp add: mutex_lock_def ctl_window_def)

subsection \<open>\<^verbatim>\<open>PAUSE\<close> and \<^verbatim>\<open>KILL\<close>\<close>

lemma list_all_posted:
  "list_all (\<lambda>e. \<not> is_plugin_call e \<and> \<not> is_filter_call e)
     (if b then [EvCommandPosted c] else [])"
  by simp

text \<open>
  Claim C8.  When the command is \<^verbatim>\<open>PAUSE\<close> and the device is not open, the
  \<^verbatim>\<open>switch\<close> of \<^verbatim>\<open>Task\<close> only calls \<^verbatim>\<open>CommandFinished\<close> and breaks: the worker
  clears the command slot, releases the mutex, signals the client and takes
  the mutex again.  No call to the plugin or to a filter is made, and every
  field that the controller does not write is as before; if the controller
  does nothing while the mutex is released, the object differs from the one
  before in \<open>command\<close> and in the events only.  The round of the loop then
  goes on with the wait for the next command, as after every \<^verbatim>\<open>break\<close>.
\<close>

theorem pause_when_closed:
  assumes "command s = AO_COMMAND_PAUSE" and "\<not> open s"
  shows "\<exists>s' posted.
           Task_switch w n s = Inr (Break, s')
           \<and> s' = mutex_lock w (emit EvClientNotify
                     (mutex_unlock (s\<lparr>command := AO_COMMAND_NONE\<rparr>)))
           \<and> events s' = events s @ [EvMutexUnlock, EvClientNotify] @ posted @ [EvMutexLock]
           \<and> list_all is_posted posted
           \<and> list_all (\<lambda>e. \<not> is_plugin_call e \<and> \<not> is_filter_call e)
                (drop (length (events s)) (events s'))
           \<and> worker_fields s' = worker_fields s
           \<and> (controller w (events s @ [EvMutexUnlock, EvClientNotify]) = []
                \<longrightarrow> s' = s\<lparr>command := AO_COMMAND_NONE,
                            events := events s @ [EvMutexUnlock, EvClientNotify, EvMutexLock]\<rparr>)
           \<and> Task_body w n s = Inr (False, Task_wait w s')"
proof -
  let ?s0 = "emit EvClientNotify (mutex_unlock (s\<lparr>command := AO_COMMAND_NONE\<rparr>))"
  let ?s' = "mutex_lock w ?s0"
  let ?posted = "if command ?s0 = AO_COMMAND_NONE \<and> command ?s' \<noteq> AO_COMMAND_NONE
                 then [EvCommandPosted (command ?s')] else []"
  have sw: "Task_switch w n s = Inr (Break, ?s')"
    using assms by (simp add: Task_switch_def CommandFinished_def unlocked_call_def)
  have ev: "events ?s' = events s @ [EvMutexUnlock, EvClientNotify] @ ?posted @ [EvMutexLock]"
    using mutex_lock_events [of w ?s0] by simp
  have idle: "?s' = s\<lparr>command := AO_COMMAND_NONE,
                       events := events s @ [EvMutexUnlock, EvClientNotify, EvMutexLock]\<rparr>"
    if "controller w (events s @ [EvMutexUnlock, EvClientNotify]) = []"
    using that by (simp add: mutex_lock_idle emit_def mutex_unlock_def)
  have body: "Task_body w n s = Inr (False, Task_wait w ?s')"
    using assms by (simp add: Task_body_def sw Task_idle_def)
  show ?thesis
  proof (intro exI [of _ ?s'] exI [of _ ?posted] conjI impI)
    show "list_all is_posted ?posted"
      by simp
    show "list_all (\<lambda>e. \<not> is_plugin_call e \<and> \<not> is_filter_call e)
            (drop (length (events s)) (events ?s'))"
      by (simp add: ev)
    show "worker_fields ?s' = worker_fields s"
      by simp
  qed (simp_all only: sw ev idle body)
qed

theorem pause_when_closed_witness:
  "Task_switch world_ok 1 (ao_idle\<lparr>command := AO_COMMAND_PAUSE\<rparr>)
     = Inr (Break, ao_idle\<lparr>events := [EvMutexUnlock, EvClientNotify, EvMutexLock]\<rparr>)"
proof -
  let ?s = "ao_idle\<lparr>command := AO_COMMAND_PAUSE\<rparr>"
  have c: "command ?s = AO_COMMAND_PAUSE" and o: "\<not> open ?s"
    by (simp_all add: ao_idle_def)
  have idle: "controller world_ok (events ?s @ [EvMutexUnlock, EvClientNotify]) = []"
    by (simp add: world_ok_def)
  from pause_when_closed [OF c o, of world_ok 1] idle
  have "Task_switch world_ok 1 ?s
          = Inr (Break, ?s\<lparr>command := AO_COMMAND_NONE,
                 events := events ?s @ [EvMutexUnlock, EvClientNotify, EvMutexLock]\<rparr>)"
    by auto
  then show ?thesis
    by (simp add: ao_idle_def)
qed

text \<open>
  Claim C10.  When the command is \<^verbatim>\<open>KILL\<close> the worker clears \<open>current_chunk\<close>,
  calls \<^verbatim>\<open>CommandFinished\<close>, releases the mutex and returns from \<^verbatim>\<open>Task\<close>.
  No call to the plugin or to a filter is made, so an open device is neither
  drained nor cancelled nor closed; \<open>open\<close> is as before, and so is every
  other field that the controller does not write, but for \<open>current_chunk\<close>.
  If the controller does nothing while the mutex is released for the signal,
  \<open>pipe\<close> is as before too: the object on return differs from the one before
  in \<open>current_chunk\<close>, \<open>command\<close> and the events only.
\<close>

theorem kill_returns_without_closing:
  assumes "command s = AO_COMMAND_KILL"
  shows "\<exists>s' posted.
           Task_switch w n s = Inr (ReturnFromTask, s')
           \<and> Task_body w n s = Inr (True, s')
           \<and> Task_loop w (Suc n) s = Inr s'
           \<and> events s' = events s @ [EvMutexUnlock, EvClientNotify] @ posted
                           @ [EvMutexLock, EvMutexUnlock]
           \<and> list_all is_posted posted
           \<and> list_all (\<lambda>e. \<not> is_plugin_call e \<and> \<not> is_filter_call e)
                (drop (length (events s)) (events s'))
           \<and> open s' = open s
           \<and> current_chunk s' = None
           \<and> worker_fields s' = worker_fields (s\<lparr>current_chunk := None\<rparr>)
           \<and> (controller w (events s @ [EvMutexUnlock, EvClientNotify]) = []
                \<longrightarrow> pipe s' = pipe s
                    \<and> s' = s\<lparr>current_chunk := None, command := AO_COMMAND_NONE,
                              events := events s @ [EvMutexUnlock, EvClientNotify,
                                                    EvMutexLock, EvMutexUnlock]\<rparr>)"
proof -
  let ?s0 = "emit EvClientNotify
               (mutex_unlock (s\<lparr>current_chunk := None, command := AO_COMMAND_NONE\<rparr>))"
  let ?s' = "mutex_unlock (mutex_lock w ?s0)"
  let ?posted = "if command ?s0 = AO_COMMAND_NONE
                    \<and> command (mutex_lock w ?s0) \<noteq> AO_COMMAND_NONE
                 then [EvCommandPosted (command (mutex_lock w ?s0))] else []"
  have sw: "Task_switch w n s = Inr (ReturnFromTask, ?s')"
    using assms by (simp add: Task_switch_def CommandFinished_def unlocked_call_def)
  have body: "Task_body w n s = Inr (True, ?s')"
    by (simp add: Task_body_def sw)
  have loop: "Task_loop w (Suc n) s = Inr ?s'"
    by (simp add: body)
  have ev: "events ?s' = events s @ [EvMutexUnlock, EvClientNotify] @ ?posted
                          @ [EvMutexLock, EvMutexUnlock]"
    using mutex_lock_events [of w ?s0] by simp
  have idle: "?s' = s\<lparr>current_chunk := None, command := AO_COMMAND_NONE,
                       events := events s @ [EvMutexUnlock, EvClientNotify,
                                             EvMutexLock, EvMutexUnlock]\<rparr>"
    if "controller w (events s @ [EvMutexUnlock, EvClientNotify]) = []"
    using that by (simp add: mutex_lock_idle emit_def mutex_unlock_def)
  have pipe: "pipe ?s' = pipe s"
    if "controller w (events s @ [EvMutexUnlock, EvClientNotify]) = []"
    using that by (simp add: mutex_lock_idle)
  show ?thesis
  proof (intro exI [of _ ?s'] exI [of _ ?posted] conjI impI)
    show "list_all is_posted ?posted"
      by simp
    show "list_all (\<lambda>e. \<not> is_plugin_call e \<and> \<not> is_filter_call e)
            (drop (length (events s)) (events ?s'))"
      by (simp only: ev) simp
    show "worker_fields ?s' = worker_fields (s\<lparr>current_chunk := None\<rparr>)"
      by simp
    show "open ?s' = open s" "current_chunk ?s' = None"
      by simp_all
    show "pipe ?s' = pipe s"
      if "controller w (events s @ [EvMutexUnlock, EvClientNotify]) = []"
      using that by (rule pipe)
  qed (simp_all only: sw body loop ev idle)
qed

theorem kill_returns_without_closing_witness:
  "Task_loop world_ok 1 (ao_playing\<lparr>command := AO_COMMAND_KILL\<rparr>)
     = Inr (ao_playing\<lparr>events := [EvMutexUnlock, EvClientNotify,
                                   EvMutexLock, EvMutexUnlock]\<rparr>)"
proof -
  let ?s = "ao_playing\<lparr>command := AO_COMMAND_KILL\<rparr>"
  have c: "command ?s = AO_COMMAND_KILL"
    by simp
  have idle: "controller world_ok (events ?s @ [EvMutexUnlock, EvClientNotify]) = []"
    by (simp add: world_ok_def)
  from kill_returns_without_closing [OF c, of world_ok 0] idle
  have "Task_loop world_ok (Suc 0) ?s
          = Inr (?s\<lparr>current_chunk := None, command := AO_COMMAND_NONE,
                 events := events ?s @ [EvMutexUnlock, EvClientNotify,
                                        EvMutexLock, EvMutexUnlock]\<rparr>)"
    by auto
  then show ?thesis
    by (simp add: ao_playing_def ao_idle_def)
qed

subsection \<open>Calls with the mutex released\<close>

lemma unlocked_call_fields [simp]:
  "tags (unlocked_call w e s) = tags s"
  "really_enabled (unlocked_call w e s) = really_enabled s"
  "open (unlocked_call w e s) = open s"
  "pause (unlocked_call w e s) = pause s"
  "in_playback_loop (unlocked_call w e s) = in_playback_loop s"
  "current_chunk (unlocked_call w e s) = current_chunk s"
  "current_chunk_finished (unlocked_call w e s) = current_chunk_finished s"
  "out_audio_format (unlocked_call w e s) = out_audio_format s"
  "config_audio_format (unlocked_call w e s) = config_audio_format s"
  "filter' (unlocked_call w e s) = filter' s"
  "convert_filter (unlocked_call w e s) = convert_filter s"
  "replay_gain_filter (unlocked_call w e s) = replay_gain_filter s"
  "other_replay_gain_filter (unlocked_call w e s) = other_replay_gain_filter s"
  "replay_gain_serial_ao (unlocked_call w e s) = replay_gain_serial_ao s"
  "other_replay_gain_serial (unlocked_call w e s) = other_replay_gain_serial s"
  "cross_fade_buffer (unlocked_call w e s) = cross_fade_buffer s"
  "fail_timer (unlocked_call w e s) = fail_timer s"
  by (simp_all add: unlocked_call_def)

lemma unlocked_call_keeps [simp]:
  "pipe s \<noteq> None \<Longrightarrow> pipe (unlocked_call w e s) \<noteq> None"
  "IsValid w (in_audio_format s) \<Longrightarrow> IsValid w (in_audio_format (unlocked_call w e s))"
  by (simp_all add: unlocked_call_def del: not_None_eq)

lemma unlocked_call_quiet [simp]: "quiet w s (unlocked_call w e s)"
  by (simp add: quiet_def del: not_None_eq)

lemma unlocked_call_busy:
  assumes "command s \<noteq> AO_COMMAND_NONE"
  shows "command (unlocked_call w e s) = command s"
    and "pipe (unlocked_call w e s) = pipe s"
    and "in_audio_format (unlocked_call w e s) = in_audio_format s"
    and "events (unlocked_call w e s) = events s @ [EvMutexUnlock, e, EvMutexLock]"
  using assms by (simp_all add: unlocked_call_def window_busy)


lemma unlocked_call_idle:
  "controller w (events s @ [EvMutexUnlock, e]) = []
   \<Longrightarrow> unlocked_call w e s = s\<lparr>events := events s @ [EvMutexUnlock, e, EvMutexLock]\<rparr>"
  by (simp add: unlocked_call_def mutex_lock_idle emit_def mutex_unlock_def)

lemma worker_fields_unlocked_call [simp]:
  "worker_fields (unlocked_call w e s) = worker_fields s"
  by (simp add: unlocked_call_def)

lemma quiet_after_unlocked_call: "quiet w s s' \<Longrightarrow> quiet w s (unlocked_call w e s')"
  by (erule quiet_trans) simp

text \<open>The results of the calls, as relations between the object before and after.\<close>

lemma Enable_result:
  assumes "Enable w s = (b, s')"
  shows "quiet w s s'" and "b \<Longrightarrow> really_enabled s'"
    and "command s \<noteq> AO_COMMAND_NONE \<Longrightarrow> kept_mailbox s s'"
  using assms
  by (auto simp: Enable_def Let_def kept_mailbox_def unlocked_call_busy
      intro!: quiet_enabled split: if_splits)

lemma OpenFilter_result:
  assumes "OpenFilter w af s = Inr (r, s')"
  shows "quiet w s s'" and "kept_mailbox s s'" and "IsValid w af"
  using assms
  by (auto simp: OpenFilter_def Let_def filter_open_def filter_close_opt_def filter_close_def
      kept_mailbox_def split: if_splits option.splits prod.splits intro!: quiet_after)

lemma call_plugin_open_result:
  assumes "call_plugin_open w s = (b, s')"
  shows "quiet w s s'"
    and "command s \<noteq> AO_COMMAND_NONE \<Longrightarrow> kept_mailbox s s'"
  using assms
  by (auto simp: call_plugin_open_def Let_def kept_mailbox_def window_busy
      split: prod.splits intro!: quiet_after)

lemma call_convert_filter_set_result:
  assumes "call_convert_filter_set w s = (b, s')"
  shows "quiet w s s'" and "kept_mailbox s s'"
  using assms by (auto simp: call_convert_filter_set_def kept_mailbox_def)

lemma kept_mailbox_refl [simp]: "kept_mailbox s s"
  by (simp add: kept_mailbox_def)

lemma kept_mailbox_trans: "kept_mailbox s s1 \<Longrightarrow> kept_mailbox s1 s2 \<Longrightarrow> kept_mailbox s s2"
  by (simp add: kept_mailbox_def)

lemma Open_busy:
  assumes "Open w s = Inr s'" and "command s \<noteq> AO_COMMAND_NONE"
  shows "kept_mailbox s s'"
  using assms
  by (auto simp: Open_def Let_def rbind_eq_Inr kept_mailbox_def
      split: if_splits prod.splits
      dest!: Enable_result(3) OpenFilter_result(2) call_plugin_open_result(2)
             call_convert_filter_set_result(2))

subsection \<open>\<^verbatim>\<open>Close\<close> and \<^verbatim>\<open>Reopen\<close>\<close>

lemma events_filter_close_opt:
  "events (filter_close_opt fo s) =
     events s @ (case fo of None \<Rightarrow> [] | Some f \<Rightarrow> [EvFilterClose f])"
  by (simp add: filter_close_opt_def filter_close_def split: option.split)

lemma events_CloseFilter:
  "events (CloseFilter s) = events s @
     (case replay_gain_filter s of None \<Rightarrow> [] | Some f \<Rightarrow> [EvFilterClose f]) @
     (case other_replay_gain_filter s of None \<Rightarrow> [] | Some f \<Rightarrow> [EvFilterClose f]) @
     [EvFilterClose (filter' s)]"
  by (simp add: CloseFilter_def Let_def events_filter_close_opt filter_close_def)

lemma Close_result:
  assumes "Close w drain s = Inr s'"
  shows "open s" and "\<not> open s'" and "current_chunk s' = None"
    and "fail_timer s' = fail_timer s" and "really_enabled s' = really_enabled s"
    and "command s \<noteq> AO_COMMAND_NONE \<Longrightarrow>
           command s' = command s \<and> in_audio_format s' = in_audio_format s \<and> pipe s' = None"
    and "command s \<noteq> AO_COMMAND_NONE \<Longrightarrow>
           events s' = events s @
             [EvMutexUnlock, if drain then EvPluginDrain else EvPluginCancel, EvPluginClose] @
             (case replay_gain_filter s of None \<Rightarrow> [] | Some f \<Rightarrow> [EvFilterClose f]) @
             (case other_replay_gain_filter s of None \<Rightarrow> [] | Some f \<Rightarrow> [EvFilterClose f]) @
             [EvFilterClose (filter' s), EvMutexLock]"
  using assms
  by (auto simp: Close_def Let_def window_busy events_CloseFilter split: if_splits)

text \<open>
  Claim C7.  Let \<^verbatim>\<open>Reopen\<close> be called for a command (the slot is not \<^verbatim>\<open>NONE\<close>)
  while the device is open and \<open>config_audio_format\<close> is not fully defined.
  Then it first runs \<^verbatim>\<open>Close(true)\<close>, which drains and closes the plugin and
  closes the filters; it puts the pipe it saved back, sets \<open>out_audio_format\<close>,
  and goes on with \<^verbatim>\<open>Open\<close>.  Whenever \<^verbatim>\<open>Reopen\<close> returns, \<open>pipe\<close> is the same
  as before the call.
\<close>

theorem reopen_keeps_pipe:
  assumes "\<not> IsFullyDefined w (config_audio_format s)"
    and "open s"
    and "command s \<noteq> AO_COMMAND_NONE"
  shows "\<exists>s1. Close w True s = Inr s1
           \<and> events s1 = events s @
               [EvMutexUnlock, EvPluginDrain, EvPluginClose] @
               (case replay_gain_filter s of None \<Rightarrow> [] | Some f \<Rightarrow> [EvFilterClose f]) @
               (case other_replay_gain_filter s of None \<Rightarrow> [] | Some f \<Rightarrow> [EvFilterClose f]) @
               [EvFilterClose (filter' s), EvMutexLock]
           \<and> pipe s1 = None
           \<and> Reopen w s =
               Open w (s1\<lparr>pipe := pipe s,
                          out_audio_format :=
                            ApplyMask w (in_audio_format s1) (config_audio_format s1)\<rparr>)
           \<and> (\<forall>s'. Reopen w s = Inr s' \<longrightarrow> pipe s' = pipe s)"
proof -
  from \<open>open s\<close> obtain s1 where close: "Close w True s = Inr s1"
    by (simp add: Close_def Let_def)
  note c = Close_result [OF close]
  let ?s2 = "s1\<lparr>pipe := pipe s,
                 out_audio_format := ApplyMask w (in_audio_format s1) (config_audio_format s1)\<rparr>"
  have cfg: "config_audio_format s1 = config_audio_format s"
    using close by (auto simp: Close_def Let_def split: if_splits)
  have reopen: "Reopen w s = Open w ?s2"
    using assms(1,2) c(2) by (simp add: Reopen_def close)
  have pipe: "pipe s' = pipe s" if "Reopen w s = Inr s'" for s'
  proof -
    from that have "Open w ?s2 = Inr s'"
      by (simp add: reopen)
    moreover have "command ?s2 \<noteq> AO_COMMAND_NONE"
      using c(6) assms(3) by simp
    ultimately have "kept_mailbox ?s2 s'"
      by (rule Open_busy)
    then show ?thesis
      by (simp add: kept_mailbox_def)
  qed
  show ?thesis
    using close c(6,7) [OF assms(3)] reopen pipe by auto
qed

theorem reopen_keeps_pipe_witness:
  "\<exists>s'. Reopen world_ok (ao_playing\<lparr>command := AO_COMMAND_REOPEN\<rparr>) = Inr s'
        \<and> pipe s' = Some 1 \<and> open s'"
proof -
  let ?s = "ao_playing\<lparr>command := AO_COMMAND_REOPEN\<rparr>"
  have a: "\<not> IsFullyDefined world_ok (config_audio_format ?s)" and b: "open ?s"
    and c: "command ?s \<noteq> AO_COMMAND_NONE"
    by (simp_all add: world_ok_def ao_playing_def ao_idle_def af_undefined_def)
  have "\<exists>s'. Reopen world_ok ?s = Inr s' \<and> open s'"
    by (simp add: Reopen_def Close_def Open_def Enable_def OpenFilter_def CloseFilter_def
        call_plugin_open_def call_convert_filter_set_def filter_open_def filter_close_opt_def
        filter_close_def mutex_lock_def mutex_unlock_def ctl_window_def emit_def
        fail_timer_Reset_def Let_def world_ok_def ao_playing_def ao_idle_def af_cd_def
        af_undefined_def)
  then obtain s' where r: "Reopen world_ok ?s = Inr s'" and o: "open s'"
    by blast
  from reopen_keeps_pipe [OF a b c] r have "pipe s' = pipe ?s"
    by blast
  then have "pipe s' = Some 1"
    by (simp add: ao_playing_def ao_idle_def)
  with r o show ?thesis
    by blast
qed

subsection \<open>Failures in \<^verbatim>\<open>Open\<close>\<close>

text \<open>
  Claim C4 says that after every failure in \<^verbatim>\<open>Open\<close> the pieces that were
  opened are closed and the fail timer is set.  The code does so when a
  filter or the plugin fails to open.  When \<^verbatim>\<open>Enable\<close> fails it returns with
  the fail timer reset, although the timer was set before the call; when
  \<^verbatim>\<open>convert_filter_set\<close> fails it closes the filters and sets the timer, and
  leaves the plugin open: \<^verbatim>\<open>ao_plugin_open\<close> is not followed by
  \<^verbatim>\<open>ao_plugin_close\<close>.
\<close>

theorem open_failure_leaves_timer_or_plugin:
  "(\<exists>s'. Open world_enable_fails (ao_idle\<lparr>fail_timer := Some 5, command := AO_COMMAND_OPEN\<rparr>)
            = Inr s'
         \<and> \<not> open s' \<and> \<not> really_enabled s' \<and> \<not> fail_timer_IsDefined s'
         \<and> events s' = [EvMutexUnlock, EvPluginEnable, EvMutexLock])
   \<and> (\<exists>s'. Open world_convert_fails (ao_idle\<lparr>command := AO_COMMAND_OPEN\<rparr>) = Inr s'
         \<and> \<not> open s' \<and> fail_timer_IsDefined s'
         \<and> events s' =
             [EvMutexUnlock, EvPluginEnable, EvMutexLock,
              EvFilterOpen 3 af_cd, EvFilterOpen 4 af_cd, EvFilterOpen 1 af_cd,
              EvMutexUnlock, EvPluginOpen af_cd, EvMutexLock,
              EvConvertFilterSet 2 af_cd,
              EvFilterClose 3, EvFilterClose 4, EvFilterClose 1]
         \<and> EvPluginClose \<notin> set (events s'))"
  by (simp add: Open_def Enable_def OpenFilter_def CloseFilter_def unlocked_call_def
      call_plugin_open_def call_convert_filter_set_def filter_open_def filter_close_opt_def
      filter_close_def mutex_lock_def mutex_unlock_def ctl_window_def emit_def
      fail_timer_Reset_def fail_timer_Update_def fail_timer_IsDefined_def Let_def
      world_enable_fails_def world_convert_fails_def world_ok_def ao_idle_def af_cd_def
      af_undefined_def)

theorem open_failure_leaves_timer_or_plugin_witness:
  "\<exists>s'. Open world_enable_fails (ao_idle\<lparr>fail_timer := Some 5, command := AO_COMMAND_OPEN\<rparr>)
           = Inr s'
        \<and> \<not> open s' \<and> \<not> fail_timer_IsDefined s'"
  using open_failure_leaves_timer_or_plugin by blast

subsection \<open>Rules for \<open>returns\<close>\<close>

lemma returns_simps [simp]:
  "returns (Inr x) Q = Q x"
  "returns (Inl e) Q = True"
  "returns (rbind m f) Q = returns m (\<lambda>x. returns (f x) Q)"
  by (auto simp: returns_def rbind_eq_Inr)

lemma returns_if:
  "returns (if c then a else b) Q = ((c \<longrightarrow> returns a Q) \<and> (\<not> c \<longrightarrow> returns b Q))"
  by simp

lemma returns_cons: "returns m P \<Longrightarrow> (\<And>x. P x \<Longrightarrow> Q x) \<Longrightarrow> returns m Q"
  by (simp add: returns_def)

lemma returnsI: "(\<And>x. m = Inr x \<Longrightarrow> Q x) \<Longrightarrow> returns m Q"
  by (simp add: returns_def)

lemma returnsD: "returns m Q \<Longrightarrow> m = Inr x \<Longrightarrow> Q x"
  by (simp add: returns_def)


lemma fail_timer_Update_Some [simp]:
  "fail_timer (fail_timer_Update w s) = Some (MonotonicClock w (events s))"
  by (simp add: fail_timer_Update_def)

lemma fail_timer_IsDefined_simps [simp]:
  "fail_timer_IsDefined (fail_timer_Update w s)"
  "\<not> fail_timer_IsDefined (fail_timer_Reset s)"
  by (simp_all add: fail_timer_IsDefined_def)

subsection \<open>Calls of \<^verbatim>\<open>ao_plugin_play\<close> that return 0\<close>

lemma failed_plays_append [simp]:
  "failed_plays (xs @ ys) = failed_plays xs + failed_plays ys"
  by (simp add: failed_plays_def)

lemma failed_plays_simps [simp]:
  "failed_plays [] = 0"
  "failed_plays (e # es) = (if is_failed_play e then 1 else 0) + failed_plays es"
  by (simp_all add: failed_plays_def)

lemma failed_plays_windows [simp]:
  "failed_plays (events (ctl_window w s)) = failed_plays (events s)"
  "failed_plays (events (mutex_lock w s)) = failed_plays (events s)"
  "failed_plays (events (cond_wait w s)) = failed_plays (events s)"
  "failed_plays (events (cond_timed_wait w t s)) = failed_plays (events s)"
  by (simp_all add: ctl_window_events [of w] mutex_lock_def cond_wait_def cond_timed_wait_def)

lemma failed_plays_unlocked_call [simp]:
  "failed_plays (events (unlocked_call w e s)) =
     failed_plays (events s) + (if is_failed_play e then 1 else 0)"
  by (simp add: unlocked_call_def)

lemma failed_plays_CloseFilter [simp]:
  "failed_plays (events (CloseFilter s)) = failed_plays (events s)"
  by (simp add: events_CloseFilter split: option.split)

lemma Close_returns:
  "returns (Close w drain s) (\<lambda>s'.
     open s \<and> \<not> open s' \<and> current_chunk s' = None
     \<and> fail_timer s' = fail_timer s \<and> really_enabled s' = really_enabled s
     \<and> in_playback_loop s' = in_playback_loop s
     \<and> failed_plays (events s') = failed_plays (events s))"
  by (simp add: Close_def Let_def)

lemma WaitForDelay_returns:
  "returns (WaitForDelay w n s) (\<lambda>(b, s').
     quiet w s s' \<and> in_playback_loop s' = in_playback_loop s
     \<and> current_chunk s' = current_chunk s
     \<and> failed_plays (events s') = failed_plays (events s))"
proof (induction n arbitrary: s)
  case 0
  show ?case by simp
next
  case (Suc n)
  show ?case
    by (auto simp: Let_def quiet_def simp del: not_None_eq del: iffCE
        intro!: returns_cons [OF Suc])
qed

lemma write_cell_fields [simp]:
  "open (write_cell c v s) = open s"
  "really_enabled (write_cell c v s) = really_enabled s"
  "pipe (write_cell c v s) = pipe s"
  "in_audio_format (write_cell c v s) = in_audio_format s"
  "fail_timer (write_cell c v s) = fail_timer s"
  "in_playback_loop (write_cell c v s) = in_playback_loop s"
  "current_chunk (write_cell c v s) = current_chunk s"
  "command (write_cell c v s) = command s"
  by (cases c; simp add: write_cell_def)+

lemma ao_chunk_data_returns:
  "returns (ao_chunk_data w chunk rgf cell s) (\<lambda>(d, s').
     quiet w s s' \<and> in_playback_loop s' = in_playback_loop s
     \<and> current_chunk s' = current_chunk s \<and> command s' = command s
     \<and> failed_plays (events s') = failed_plays (events s))"
  by (auto simp: ao_chunk_data_def Let_def quiet_def split: option.splits)

lemma ao_filter_chunk_returns:
  "returns (ao_filter_chunk w chunk s) (\<lambda>(d, s').
     quiet w s s' \<and> in_playback_loop s' = in_playback_loop s
     \<and> current_chunk s' = current_chunk s \<and> command s' = command s
     \<and> failed_plays (events s') = failed_plays (events s))"
  unfolding ao_filter_chunk_def
  by (auto simp: Let_def apply_filter_chain_def quiet_def split: option.splits
      intro!: returns_cons [OF ao_chunk_data_returns])

lemma PlayChunk_loop_returns:
  "returns (PlayChunk_loop w n bytes s) (\<lambda>(b, s').
     failed_plays (events s') = failed_plays (events s) + (if b then 0 else 1)
     \<and> in_playback_loop s' = in_playback_loop s
     \<and> (b \<longrightarrow> quiet w s s' \<and> current_chunk s' = current_chunk s)
     \<and> (\<not> b \<longrightarrow> \<not> open s' \<and> fail_timer_IsDefined s' \<and> current_chunk s' = None))"
proof (induction n arbitrary: bytes s)
  case 0
  show ?case by simp
next
  case (Suc n)
  show ?case
    by (auto simp: Let_def quiet_def simp del: not_None_eq del: iffCE
        intro!: returns_cons [OF WaitForDelay_returns] returns_cons [OF Close_returns]
                returns_cons [OF Suc])
qed

lemma PlayChunk_returns:
  "returns (PlayChunk w n chunk s) (\<lambda>(b, s').
     failed_plays (events s) \<le> failed_plays (events s')
     \<and> in_playback_loop s' = in_playback_loop s
     \<and> (b \<longrightarrow> failed_plays (events s') = failed_plays (events s)
              \<and> quiet w s s' \<and> current_chunk s' = current_chunk s)
     \<and> (\<not> b \<longrightarrow> \<not> open s' \<and> fail_timer_IsDefined s' \<and> current_chunk s' = None))"
  unfolding PlayChunk_def
  by (auto simp: Let_def quiet_def simp del: not_None_eq del: iffCE split: option.splits
      intro!: returns_cons [OF ao_filter_chunk_returns] returns_cons [OF Close_returns]
              returns_cons [OF PlayChunk_loop_returns])

lemma Play_loop_returns:
  "returns (Play_loop w n chunk s) (\<lambda>s'.
     failed_plays (events s) \<le> failed_plays (events s')
     \<and> in_playback_loop s' = in_playback_loop s
     \<and> stays_open w s s'
     \<and> (failed_plays (events s) < failed_plays (events s')
          \<longrightarrow> \<not> open s' \<and> fail_timer_IsDefined s' \<and> current_chunk s' = None))"
proof (induction n arbitrary: chunk s)
  case 0
  show ?case by simp
next
  case (Suc n)
  show ?case
    by (auto simp: Let_def quiet_def stays_open_def simp del: not_None_eq del: iffCE
        split: option.splits
        intro!: returns_cons [OF PlayChunk_returns] returns_cons [OF Suc])
qed

lemma pipe_kept_ex [simp]:
  "\<exists>y. pipe s = Some y \<Longrightarrow> \<exists>y. pipe (unlocked_call w e s) = Some y"
  "\<exists>y. pipe s = Some y \<Longrightarrow> \<exists>y. pipe (mutex_lock w s) = Some y"
  "\<exists>y. pipe s = Some y \<Longrightarrow> \<exists>y. pipe (cond_wait w s) = Some y"
  "\<exists>y. pipe s = Some y \<Longrightarrow> \<exists>y. pipe (cond_timed_wait w t s) = Some y"
  by (simp_all flip: not_None_eq)

lemma returns_True [simp]: "returns m (\<lambda>x. True)"
  by (simp add: returns_def)

lemma GetNextChunk_returns: "returns (GetNextChunk w s) (\<lambda>c. True)"
  by (simp add: returns_def)

lemma Play_returns:
  "returns (Play w n s) (\<lambda>(r, s').
     failed_plays (events s) \<le> failed_plays (events s')
     \<and> stays_open w s s'
     \<and> (failed_plays (events s) < failed_plays (events s')
          \<longrightarrow> r \<and> \<not> open s' \<and> fail_timer_IsDefined s' \<and> current_chunk s' = None))"
  unfolding Play_def
  by (auto simp: Let_def quiet_def stays_open_def fail_timer_IsDefined_def
      simp del: not_None_eq del: iffCE split: option.splits
      intro!: returns_cons [OF Play_loop_returns] returns_cons [OF GetNextChunk_returns])

lemma Task_switch_exit:
  "returns (Task_switch w n s) (\<lambda>(exit, s').
     exit = ReturnFromTask \<longrightarrow> command s = AO_COMMAND_KILL)"
  by (cases "command s") (simp_all add: Task_switch_def Let_def)

lemma Task_body_returned:
  "returns (Task_body w n s) (\<lambda>(returned, s'). returned \<longrightarrow> command s = AO_COMMAND_KILL)"
  unfolding Task_body_def
  by (auto split: switch_exit.splits intro!: returns_cons [OF Task_switch_exit])
text \<open>
  Claim C2.  Four facts about a call of \<^verbatim>\<open>ao_plugin_play\<close> that returns 0.

  (1) Take a round of the loop of \<^verbatim>\<open>PlayChunk\<close> with bytes left and no
  command, in a state where the device is open and the fail timer is not
  set, in which \<^verbatim>\<open>WaitForDelay\<close> returns true and \<^verbatim>\<open>ao_plugin_play\<close> returns 0.
  Then \<^verbatim>\<open>Close(false)\<close> is run (cancel, not drain), the fail timer is set,
  and the loop ends with the result false.

  (2) When \<^verbatim>\<open>PlayChunk\<close> or \<^verbatim>\<open>Play\<close> returns and a call of \<^verbatim>\<open>ao_plugin_play\<close>
  has returned 0 meanwhile, the device is closed, the fail timer is set
  and \<open>current_chunk\<close> is null; \<^verbatim>\<open>PlayChunk\<close> has returned false and \<^verbatim>\<open>Play\<close>
  true.

  (3) When \<^verbatim>\<open>PlayChunk\<close> returns false for the first chunk of a step of
  playing, the round of the loop of \<^verbatim>\<open>Task\<close> ends after the signal to the
  player, and the loop goes on.

  (4) A round of the loop of \<^verbatim>\<open>Task\<close> makes the thread return only when
  the command is \<^verbatim>\<open>KILL\<close>.
\<close>

theorem play_failure_closes_device:
  "(bytes \<noteq> [] \<and> command s = AO_COMMAND_NONE \<and> open s \<and> \<not> fail_timer_IsDefined s
      \<and> WaitForDelay w n s = Inr (True, sd)
      \<and> ao_plugin_play w (events (mutex_unlock sd)) bytes = 0
    \<longrightarrow> (\<exists>s4. Close w False (unlocked_call w (EvPluginPlay bytes 0) sd) = Inr s4
              \<and> s4 = mutex_lock w (CloseFilter (emit EvPluginClose (emit EvPluginCancel
                        (mutex_unlock ((unlocked_call w (EvPluginPlay bytes 0) sd)
                           \<lparr>pipe := None, current_chunk := None, open := False\<rparr>)))))
              \<and> PlayChunk_loop w (Suc n) bytes s = Inr (False, fail_timer_Update w s4)
              \<and> \<not> open (fail_timer_Update w s4)
              \<and> fail_timer_IsDefined (fail_timer_Update w s4)))
   \<and> (PlayChunk w n chunk s = Inr (ok, s')
        \<and> failed_plays (events s) < failed_plays (events s')
      \<longrightarrow> \<not> ok \<and> \<not> open s' \<and> fail_timer_IsDefined s' \<and> current_chunk s' = None)
   \<and> (Play w n s = Inr (played, s')
        \<and> failed_plays (events s) < failed_plays (events s')
      \<longrightarrow> played \<and> \<not> open s' \<and> fail_timer_IsDefined s' \<and> current_chunk s' = None)
   \<and> (command s = AO_COMMAND_NONE \<and> open s \<and> allow_play s \<and> pipe s \<noteq> None
        \<and> \<not> in_playback_loop s \<and> GetNextChunk w s = Inr (Some chunk)
        \<and> PlayChunk w n chunk
              (s\<lparr>current_chunk_finished := False, in_playback_loop := True,
                 current_chunk := Some chunk\<rparr>) = Inr (False, s')
      \<longrightarrow> Task_body w (Suc n) s
            = Inr (False, unlocked_call w EvPlayerSignal
                            (s'\<lparr>in_playback_loop := False, current_chunk_finished := True\<rparr>)))
   \<and> (Task_body w n s = Inr (returned, s') \<and> returned \<longrightarrow> command s = AO_COMMAND_KILL)"
  (is "?round \<and> ?chunk \<and> ?step \<and> ?first \<and> ?kill")
proof -
  have 1: ?round
  proof (rule impI)
  assume a: "bytes \<noteq> [] \<and> command s = AO_COMMAND_NONE \<and> open s \<and> \<not> fail_timer_IsDefined s
      \<and> WaitForDelay w n s = Inr (True, sd)
      \<and> ao_plugin_play w (events (mutex_unlock sd)) bytes = 0"
  let ?s3 = "unlocked_call w (EvPluginPlay bytes 0) sd"
  let ?s4 = "mutex_lock w (CloseFilter (emit EvPluginClose (emit EvPluginCancel
               (mutex_unlock (?s3\<lparr>pipe := None, current_chunk := None, open := False\<rparr>)))))"
  from a have "quiet w s sd"
    using returnsD [OF WaitForDelay_returns, of w n s "(True, sd)"] by simp
  with a have sd: "open sd" "fail_timer sd = None"
    by (simp_all add: quiet_def fail_timer_IsDefined_def)
  then have close: "Close w False ?s3 = Inr ?s4"
    by (simp add: Close_def Let_def)
  have "PlayChunk_loop w (Suc n) bytes s = Inr (False, fail_timer_Update w ?s4)"
    using a sd by (simp add: close Let_def fail_timer_IsDefined_def)
  with close show "\<exists>s4. Close w False ?s3 = Inr s4 \<and> s4 = ?s4
      \<and> PlayChunk_loop w (Suc n) bytes s = Inr (False, fail_timer_Update w s4)
      \<and> \<not> open (fail_timer_Update w s4) \<and> fail_timer_IsDefined (fail_timer_Update w s4)"
    by simp
  qed
  have 2: ?chunk
    using returnsD [OF PlayChunk_returns, of w n chunk s "(ok, s')"] by auto
  have 3: ?step
    using returnsD [OF Play_returns, of w n s "(played, s')"] by auto
  have 4: ?first
  proof (rule impI)
  assume a: "command s = AO_COMMAND_NONE \<and> open s \<and> allow_play s \<and> pipe s \<noteq> None
        \<and> \<not> in_playback_loop s \<and> GetNextChunk w s = Inr (Some chunk)
        \<and> PlayChunk w n chunk
              (s\<lparr>current_chunk_finished := False, in_playback_loop := True,
                 current_chunk := Some chunk\<rparr>) = Inr (False, s')"
  let ?s2 = "s\<lparr>current_chunk_finished := False, in_playback_loop := True\<rparr>"
  from a have pc: "PlayChunk w n chunk (?s2\<lparr>current_chunk := Some chunk\<rparr>) = Inr (False, s')"
    by simp
  from returnsD [OF PlayChunk_returns pc]
  have s': "current_chunk s' = None" "in_playback_loop s'"
    by simp_all
  have loop: "Play_loop w (Suc n) (Some chunk) ?s2 = Inr s'"
    using a by (simp add: pc s')
  have "Play w (Suc n) s
          = Inr (True, unlocked_call w EvPlayerSignal
                         (s'\<lparr>in_playback_loop := False, current_chunk_finished := True\<rparr>))"
    using a by (simp add: Play_def loop s' del: Play_loop.simps)
  with a show "Task_body w (Suc n) s
      = Inr (False, unlocked_call w EvPlayerSignal
                      (s'\<lparr>in_playback_loop := False, current_chunk_finished := True\<rparr>))"
    by (simp add: Task_body_def Task_switch_def Task_idle_def)
  qed
  have 5: ?kill
    using returnsD [OF Task_body_returned, of w n s "(returned, s')"] by simp
  from 1 2 3 4 5 show ?thesis
    by (intro conjI)
qed

theorem play_failure_closes_device_witness:
  "(\<exists>s'. PlayChunk_loop world_play_fails 2 (replicate 60 1) ao_playing = Inr (False, s')
          \<and> \<not> open s' \<and> fail_timer_IsDefined s')
   \<and> (\<exists>s'. Play world_play_fails 3 ao_playing = Inr (True, s')
          \<and> \<not> open s' \<and> fail_timer_IsDefined s' \<and> current_chunk s' = None)"
proof
  let ?w = world_play_fails
  let ?s1 = "emit EvPluginDelay ao_playing"
  have hyp: "replicate 60 (1::byte) \<noteq> [] \<and> command ao_playing = AO_COMMAND_NONE
      \<and> open ao_playing \<and> \<not> fail_timer_IsDefined ao_playing
      \<and> WaitForDelay ?w 1 ao_playing = Inr (True, ?s1)
      \<and> ao_plugin_play ?w (events (mutex_unlock ?s1)) (replicate 60 1) = 0"
    by (simp add: fail_timer_IsDefined_def world_play_fails_def world_ok_def ao_playing_def
        ao_idle_def)
  from play_failure_closes_device
         [where w = ?w and s = ao_playing and bytes = "replicate 60 1" and n = 1 and sd = ?s1,
          THEN conjunct1, rule_format, OF hyp]
  show "\<exists>s'. PlayChunk_loop ?w 2 (replicate 60 1) ao_playing = Inr (False, s')
          \<and> \<not> open s' \<and> fail_timer_IsDefined s'"
    by (auto simp: numeral_2_eq_2)
next
  let ?w = world_play_fails
  have "\<exists>s'. Play ?w 3 ao_playing = Inr (True, s')
          \<and> failed_plays (events ao_playing) < failed_plays (events s')"
    by (simp add: Play_def GetNextChunk_def PlayChunk_def ao_filter_chunk_def
        ao_chunk_data_def apply_filter_chain_def Close_def CloseFilter_def
        filter_close_opt_def filter_close_def unlocked_call_def mutex_lock_def
        mutex_unlock_def ctl_window_def emit_def fail_timer_Update_def
        fail_timer_IsDefined_def read_cell_def write_cell_def Let_def
        world_play_fails_def world_ok_def ao_playing_def ao_idle_def chunk_60_def af_cd_def
        numeral_3_eq_3)
  then obtain s' where run: "Play ?w 3 ao_playing = Inr (True, s')
      \<and> failed_plays (events ao_playing) < failed_plays (events s')"
    by blast
  from play_failure_closes_device
         [where w = ?w and s = ao_playing and n = 3 and played = True and s' = s',
          THEN conjunct2, THEN conjunct2, THEN conjunct1, rule_format, OF run]
  have "\<not> open s' \<and> fail_timer_IsDefined s' \<and> current_chunk s' = None"
    by simp
  with run show "\<exists>s'. Play ?w 3 ao_playing = Inr (True, s')
          \<and> \<not> open s' \<and> fail_timer_IsDefined s' \<and> current_chunk s' = None"
    by blast
qed

subsection \<open>The two invariants of an open device\<close>

lemma Enable_returns:
  "Enable w s = (b, s') \<Longrightarrow> quiet w s s' \<and> (b \<longrightarrow> really_enabled s')"
  using Enable_result(1,2) [of w s b s'] by simp

lemma Open_establishes:
  assumes "Open w s = Inr s'"
  shows "open_inv w s' \<and> fail_timer_inv s'"
  using assms
  by (auto simp: Open_def Let_def rbind_eq_Inr open_inv_def fail_timer_inv_def
      fail_timer_IsDefined_def quiet_def simp del: not_None_eq del: iffCE
      split: if_splits prod.splits
      dest!: Enable_returns OpenFilter_result(1) call_plugin_open_result(1)
             call_convert_filter_set_result(1))


lemma ReopenFilter_stays_open:
  assumes "ReopenFilter w s = Inr s'"
  shows "stays_open w s s'"
  using assms
  by (auto simp: ReopenFilter_def Let_def rbind_eq_Inr stays_open_def quiet_def
      simp del: not_None_eq del: iffCE split: if_splits prod.splits
      dest!: OpenFilter_result(1) call_convert_filter_set_result(1))

lemma Reopen_keeps_inv:
  assumes "Reopen w s = Inr s'"
  shows "(open_inv w s \<longrightarrow> open_inv w s') \<and> (fail_timer_inv s \<longrightarrow> fail_timer_inv s')"
proof (cases "\<not> IsFullyDefined w (config_audio_format s) \<and> open s")
  case True
  then obtain s2 where "Open w s2 = Inr s'"
    using assms by (auto simp: Reopen_def rbind_eq_Inr dest: Close_closed)
  then show ?thesis
    by (simp add: Open_establishes)
next
  case False
  then consider s2 where "\<not> open s" "Open w s2 = Inr s'"
    | "open s" "ReopenFilter w s = Inr s'"
    using assms by (auto simp: Reopen_def rbind_eq_Inr split: if_splits)
  then show ?thesis
  proof cases
    case 1
    then show ?thesis
      by (simp add: Open_establishes)
  next
    case 2
    then have "stays_open w s s'"
      by (simp add: ReopenFilter_stays_open)
    then show ?thesis
      by (auto intro: open_inv_stays_open fail_timer_inv_stays_open)
  qed
qed

lemma Pause_loop_returns: "returns (Pause_loop w n s) (\<lambda>s'. stays_open w s s')"
proof (induction n arbitrary: s)
  case 0
  show ?case by simp
next
  case (Suc n)
  show ?case
    by (auto simp: Let_def quiet_def stays_open_def simp del: not_None_eq del: iffCE
        intro!: returns_cons [OF WaitForDelay_returns] returns_cons [OF Close_returns]
                returns_cons [OF Suc])
qed

lemma CommandFinished_returns: "returns (CommandFinished w s) (\<lambda>s'. quiet w s s')"
  by (auto intro!: returnsI CommandFinished_quiet)

lemma Pause_returns: "returns (Pause w n s) (\<lambda>s'. stays_open w s s')"
  unfolding Pause_def
  by (auto simp: Let_def quiet_def stays_open_def simp del: not_None_eq del: iffCE
      intro!: returns_cons [OF CommandFinished_returns] returns_cons [OF Pause_loop_returns])

lemma Task_wait_quiet: "quiet w s (Task_wait w s)"
  by (simp add: Task_wait_def quiet_def del: not_None_eq)

lemma Task_idle_returns: "returns (Task_idle w n s) (\<lambda>s'. stays_open w s s')"
  unfolding Task_idle_def
  using Task_wait_quiet [of w]
  by (auto simp: quiet_def stays_open_def simp del: not_None_eq del: iffCE
      intro!: returns_cons [OF Play_returns])

lemma keeps_inv_refl [simp]: "keeps_inv w s s"
  by (simp add: keeps_inv_def)

lemma keeps_inv_trans: "keeps_inv w s s1 \<Longrightarrow> keeps_inv w s1 s2 \<Longrightarrow> keeps_inv w s s2"
  by (simp add: keeps_inv_def)

lemma stays_open_keeps: "stays_open w s s' \<Longrightarrow> keeps_inv w s s'"
  by (auto simp: keeps_inv_def intro: open_inv_stays_open fail_timer_inv_stays_open)

lemma quiet_keeps: "quiet w s s' \<Longrightarrow> keeps_inv w s s'"
  by (simp add: stays_open_keeps quiet_stays_open)

lemma closed_keeps: "\<not> open s' \<Longrightarrow> keeps_inv w s s'"
  by (simp add: stays_open_keeps)

lemma established_keeps: "open_inv w s' \<and> fail_timer_inv s' \<Longrightarrow> keeps_inv w s s'"
  by (simp add: keeps_inv_def)

lemma keeps_inv_finished:
  assumes "returns m (\<lambda>s1. keeps_inv w s s1)"
  shows "returns (rbind m (\<lambda>s1. rbind (CommandFinished w s1) (\<lambda>s2. Inr (e, s2))))
           (\<lambda>(exit, s'). keeps_inv w s s')"
proof -
  have "returns (CommandFinished w s1) (\<lambda>s2. keeps_inv w s s2)" if "keeps_inv w s s1" for s1
    by (rule returns_cons [OF CommandFinished_returns])
      (rule keeps_inv_trans [OF that quiet_keeps])
  with assms show ?thesis
    by (auto simp: returns_def rbind_eq_Inr)
qed

lemma Task_switch_keeps_inv:
  "returns (Task_switch w n s) (\<lambda>(exit, s'). keeps_inv w s s')"
proof (cases "command s")
  case AO_COMMAND_NONE
  then show ?thesis by (simp add: Task_switch_def)
next
  case AO_COMMAND_ENABLE
  have "returns (Inr (snd (Enable w s))) (\<lambda>s1. keeps_inv w s s1)"
    using Enable_result(1) [of w s "fst (Enable w s)" "snd (Enable w s)"]
    by (simp add: quiet_keeps)
  from keeps_inv_finished [OF this] AO_COMMAND_ENABLE show ?thesis
    by (simp add: Task_switch_def)
next
  case AO_COMMAND_DISABLE
  have "returns (Disable w s) (\<lambda>s1. keeps_inv w s s1)"
    by (rule returnsI) (simp add: closed_keeps Disable_closed)
  from keeps_inv_finished [OF this] AO_COMMAND_DISABLE show ?thesis
    by (simp add: Task_switch_def)
next
  case AO_COMMAND_OPEN
  have "returns (Open w s) (\<lambda>s1. keeps_inv w s s1)"
    by (rule returnsI) (simp add: established_keeps Open_establishes)
  from keeps_inv_finished [OF this] AO_COMMAND_OPEN show ?thesis
    by (simp add: Task_switch_def)
next
  case AO_COMMAND_REOPEN
  have "returns (Reopen w s) (\<lambda>s1. keeps_inv w s s1)"
    by (rule returnsI) (simp add: keeps_inv_def Reopen_keeps_inv)
  from keeps_inv_finished [OF this] AO_COMMAND_REOPEN show ?thesis
    by (simp add: Task_switch_def)
next
  case AO_COMMAND_CLOSE
  have "returns (Close w False s) (\<lambda>s1. keeps_inv w s s1)"
    by (rule returnsI) (simp add: closed_keeps Close_closed)
  from keeps_inv_finished [OF this] AO_COMMAND_CLOSE show ?thesis
    by (simp add: Task_switch_def)
next
  case AO_COMMAND_PAUSE
  have a: "returns (Inr s) (\<lambda>s1. keeps_inv w s s1)"
    by simp
  have b: "returns (Pause w n s) (\<lambda>s1. keeps_inv w s s1)"
    by (rule returns_cons [OF Pause_returns]) (rule stays_open_keeps)
  from keeps_inv_finished [OF a, of Break] b AO_COMMAND_PAUSE show ?thesis
    by (auto simp: Task_switch_def returns_def rbind_eq_Inr)
next
  case AO_COMMAND_DRAIN
  have "returns (if open s
             then
               (if current_chunk s \<noteq> None then Inl AssertionFailed
                else
                  (case pipe s of
                     None \<Rightarrow> Inl NullPointer
                   | Some mp \<Rightarrow>
                       if Peek w (events s) mp \<noteq> None then Inl AssertionFailed
                       else Inr (unlocked_call w EvPluginDrain s)))
             else Inr s) (\<lambda>s1. keeps_inv w s s1)"
    by (simp add: quiet_keeps split: option.split)
  from keeps_inv_finished [OF this] AO_COMMAND_DRAIN show ?thesis
    by (simp add: Task_switch_def)
next
  case AO_COMMAND_CANCEL
  have q: "quiet w s (s\<lparr>current_chunk := None\<rparr>)"
    by simp
  have "returns (Inr (if open (s\<lparr>current_chunk := None\<rparr>)
                      then unlocked_call w EvPluginCancel (s\<lparr>current_chunk := None\<rparr>)
                      else s\<lparr>current_chunk := None\<rparr>)) (\<lambda>s1. keeps_inv w s s1)"
    using q by (simp add: quiet_keeps quiet_after_unlocked_call)
  from keeps_inv_finished [OF this] AO_COMMAND_CANCEL show ?thesis
    by (simp add: Task_switch_def Let_def)
next
  case AO_COMMAND_KILL
  have "quiet w s (s\<lparr>current_chunk := None\<rparr>)"
    by simp
  then have "returns (CommandFinished w (s\<lparr>current_chunk := None\<rparr>))
               (\<lambda>s1. keeps_inv w s (mutex_unlock s1))"
    by (intro returns_cons [OF CommandFinished_returns] quiet_keeps quiet_after(2))
      (erule quiet_trans)
  with AO_COMMAND_KILL show ?thesis
    by (simp add: Task_switch_def)
qed

lemma Task_body_keeps_inv:
  "returns (Task_body w n s) (\<lambda>(returned, s'). keeps_inv w s s')"
proof -
  have "returns (Task_idle w n s1) (\<lambda>s2. keeps_inv w s s2)" if "keeps_inv w s s1" for s1
    by (rule returns_cons [OF Task_idle_returns])
      (rule keeps_inv_trans [OF that stays_open_keeps])
  then show ?thesis
    unfolding Task_body_def
    by (auto split: switch_exit.splits intro!: returns_cons [OF Task_switch_keeps_inv])
qed

lemma reachable_inv: "reachable w s \<Longrightarrow> open_inv w s \<and> fail_timer_inv s"
proof (induction rule: reachable.induct)
  case (start s)
  then show ?case
    by (simp add: initial_def open_inv_def fail_timer_inv_def)
next
  case (round s n s')
  from returnsD [OF Task_body_keeps_inv round.hyps(2)] round.IH show ?case
    by (simp add: keeps_inv_def)
qed

lemma PlayChunk_stays_open: "PlayChunk w n chunk s = Inr (ok, s') \<Longrightarrow> stays_open w s s'"
  using returnsD [OF PlayChunk_returns, of w n chunk s "(ok, s')"]
  by (cases ok) (simp_all add: stays_open_def)


text \<open>
  A run that opens the device: the controller posts \<^verbatim>\<open>OPEN\<close>, the thread
  starts and goes once round its loop.
\<close>

lemma reachable_open_example:
  "\<exists>s. reachable world_opens s \<and> open s"
proof -
  let ?s0 = "mutex_lock world_opens ao_idle"
  have "initial ao_idle"
    by (simp add: initial_def ao_idle_def)
  then have r0: "reachable world_opens ?s0"
    by (rule reachable.start)
  have "\<exists>s'. Task_body world_opens 1 ?s0 = Inr (False, s') \<and> open s'"
    by (simp add: Task_body_def Task_switch_def Task_idle_def Task_wait_def Play_def
        GetNextChunk_def Open_def Enable_def OpenFilter_def CommandFinished_def
        call_plugin_open_def call_convert_filter_set_def filter_open_def unlocked_call_def
        cond_wait_def mutex_lock_def mutex_unlock_def ctl_window_def emit_def
        fail_timer_Reset_def Let_def world_opens_def world_ok_def ao_idle_def af_cd_def
        af_undefined_def)
  then obtain s' where "Task_body world_opens 1 ?s0 = Inr (False, s')" and o: "open s'"
    by blast
  with r0 have "reachable world_opens s'"
    by (blast intro: reachable.round)
  with o show ?thesis
    by blast
qed



text \<open>
  Claim C9.  In every state the thread reaches at the head of its loop, the
  fail timer of an open device is not set.  \<^verbatim>\<open>Open\<close> returns with the device
  open only with the timer reset; \<^verbatim>\<open>PlayChunk\<close> and \<^verbatim>\<open>ReopenFilter\<close>, which set
  the timer, return with the device closed whenever they have changed the
  timer; and a whole round of the loop of \<^verbatim>\<open>Task\<close> keeps the invariant.
\<close>

theorem open_implies_fail_timer_unset:
  "(reachable w s \<and> open s \<longrightarrow> \<not> fail_timer_IsDefined s)
   \<and> (Open w s = Inr s' \<and> open s' \<longrightarrow> \<not> fail_timer_IsDefined s')
   \<and> (PlayChunk w n chunk s = Inr (ok, s') \<and> fail_timer s' \<noteq> fail_timer s \<longrightarrow> \<not> open s')
   \<and> (ReopenFilter w s = Inr s' \<and> fail_timer s' \<noteq> fail_timer s \<longrightarrow> \<not> open s')
   \<and> (fail_timer_inv s \<and> Task_body w n s = Inr (returned, s') \<longrightarrow> fail_timer_inv s')"
  (is "?reach \<and> ?Open \<and> ?PlayChunk \<and> ?ReopenFilter \<and> ?Task")
proof -
  have 1: ?reach
    using reachable_inv [of w s] by (simp add: fail_timer_inv_def)
  have 2: ?Open
    using Open_establishes [of w s s'] by (simp add: fail_timer_inv_def)
  have 3: ?PlayChunk
    using PlayChunk_stays_open [of w n chunk s ok s']
    by (auto simp: stays_open_def quiet_def)
  have 4: ?ReopenFilter
    using ReopenFilter_stays_open [of w s s']
    by (auto simp: stays_open_def quiet_def)
  have 5: ?Task
    using returnsD [OF Task_body_keeps_inv, of w n s "(returned, s')"]
    by (simp add: keeps_inv_def)
  from 1 2 3 4 5 show ?thesis
    by (intro conjI)
qed

theorem open_implies_fail_timer_unset_witness:
  "\<exists>s. reachable world_opens s \<and> open s \<and> \<not> fail_timer_IsDefined s"
proof -
  from reachable_open_example obtain s where r: "reachable world_opens s \<and> open s"
    by blast
  from open_implies_fail_timer_unset [where w = world_opens and s = s, THEN conjunct1,
      rule_format, OF r] r
  show ?thesis
    by blast
qed

subsection \<open>Commands and the work between them\<close>

lemma pending_append: "pending (xs @ ys) = foldl ack_step (pending xs) ys"
  by (simp add: pending_def)

lemma pending_snoc [simp]: "pending (evs @ [e]) = ack_step (pending evs) e"
  by (simp add: pending_def)

lemma pending_Nil [simp]: "\<not> pending []"
  by (simp add: pending_def)

lemma work_waits_Nil [simp]: "work_waits []"
  by (simp add: work_waits_def)

lemma work_waits_snoc [simp]:
  "work_waits (evs @ [e]) \<longleftrightarrow> work_waits evs \<and> (non_command_work e \<longrightarrow> \<not> pending evs)"
proof -
  have "(\<forall>n < Suc (length evs). P n) \<longleftrightarrow> (\<forall>n < length evs. P n) \<and> P (length evs)" for P
    by (auto simp: less_Suc_eq)
  then show ?thesis
    by (simp add: work_waits_def nth_append cong: conj_cong)
qed

lemma ack_step_neutral: "neutral e \<Longrightarrow> ack_step p e = p"
  by (cases e) (simp_all add: neutral_def)


lemma mailbox_inv_emit_neutral [simp]:
  "neutral e \<Longrightarrow> mailbox_inv (emit e s) = mailbox_inv s"
  by (simp add: mailbox_inv_def ack_step_neutral neutral_def)



lemma neutral_simps [simp]:
  "neutral EvMutexUnlock" "neutral EvMutexLock" "neutral EvPlayerSignal"
  "neutral (EvCondTimedWait t)" "neutral EvPluginEnable" "neutral EvPluginDisable"
  "neutral (EvPluginOpen af)" "neutral EvPluginClose" "neutral EvPluginDrain"
  "neutral EvPluginCancel" "neutral EvPluginPause" "neutral EvPluginDelay"
  "neutral (EvFilterOpen f af)" "neutral (EvFilterClose f)" "neutral (EvFilterPCM f bytes)"
  "neutral (EvReplayGainSetInfo f info)" "neutral (EvConvertFilterSet f af)"
  "neutral (EvPcmMix dest src fmt portion)"
  by (simp_all add: neutral_def)


lemma pending_append_list [simp]: "pending (xs @ ys) = foldl ack_step (pending xs) ys"
  by (simp add: pending_def)

lemma work_waits_append [simp]:
  "work_waits (xs @ ys) \<longleftrightarrow> work_waits xs \<and> work_from (pending xs) ys"
proof (induction ys arbitrary: xs)
  case Nil
  show ?case by simp
next
  case (Cons e es)
  have "work_waits (xs @ e # es) = work_waits ((xs @ [e]) @ es)"
    by simp
  also have "\<dots> \<longleftrightarrow> work_waits (xs @ [e]) \<and> work_from (pending (xs @ [e])) es"
    by (rule Cons)
  also have "\<dots> \<longleftrightarrow> work_waits xs \<and> work_from (pending xs) (e # es)"
    by (simp only: work_waits_snoc pending_snoc work_from.simps conj_assoc)
  finally show ?case .
qed

lemma mailbox_inv_updates [simp]:
  "mailbox_inv (s\<lparr>tags := x0\<rparr>) = mailbox_inv s"
  "mailbox_inv (s\<lparr>really_enabled := x1\<rparr>) = mailbox_inv s"
  "mailbox_inv (s\<lparr>open := x2\<rparr>) = mailbox_inv s"
  "mailbox_inv (s\<lparr>pause := x3\<rparr>) = mailbox_inv s"
  "mailbox_inv (s\<lparr>allow_play := x4\<rparr>) = mailbox_inv s"
  "mailbox_inv (s\<lparr>in_playback_loop := x5\<rparr>) = mailbox_inv s"
  "mailbox_inv (s\<lparr>woken_for_play := x6\<rparr>) = mailbox_inv s"
  "mailbox_inv (s\<lparr>current_chunk := x7\<rparr>) = mailbox_inv s"
  "mailbox_inv (s\<lparr>current_chunk_finished := x8\<rparr>) = mailbox_inv s"
  "mailbox_inv (s\<lparr>pipe := x9\<rparr>) = mailbox_inv s"
  "mailbox_inv (s\<lparr>out_audio_format := x10\<rparr>) = mailbox_inv s"
  "mailbox_inv (s\<lparr>cross_fade_buffer := x11\<rparr>) = mailbox_inv s"
  "mailbox_inv (s\<lparr>fail_timer := x12\<rparr>) = mailbox_inv s"
  "mailbox_inv (write_cell c v s) = mailbox_inv s"
  "mailbox_inv (fail_timer_Update w s) = mailbox_inv s"
  "mailbox_inv (fail_timer_Reset s) = mailbox_inv s"
  "mailbox_inv (filter_close f s) = mailbox_inv s"
  "mailbox_inv (filter_close_opt fo s) = mailbox_inv s"
  "mailbox_inv (CloseFilter s) = mailbox_inv s"
  by (simp_all add: mailbox_inv_def fail_timer_Update_def fail_timer_Reset_def
      events_CloseFilter events_filter_close_opt filter_close_def split: option.split)





























end
